theory Spec2Isabelle
  imports Main "HOL-Library.Word"
begin

unbundle bit_operations_syntax

section \<open>The LTR390 sensor program \<^verbatim>\<open>i2c.c\<close>\<close>

text \<open>
  A shallow embedding of \<^verbatim>\<open>src/i2c.c\<close>: the register constants and enumerations,
  the text formatting of its \<^verbatim>\<open>printf\<close> calls, the getters, setters and printers of
  the registers, \<^verbatim>\<open>msleep\<close>, and \<^verbatim>\<open>main\<close>. Bytes are \<open>8 word\<close>, values of
  \<^verbatim>\<open>unsigned int\<close> and \<^verbatim>\<open>uint32_t\<close> are \<open>32 word\<close>.
\<close>

type_synonym uint8_t = "8 word"
type_synonym uint32_t = "32 word"

subsection \<open>Constants and enumerations (lines 11 to 58)\<close>

definition DEVICE :: uint8_t where "DEVICE = 0x53"

definition MAIN_CTRL_REG :: uint8_t where "MAIN_CTRL_REG = 0x00"
definition RES_MEAS_RATE_REG :: uint8_t where "RES_MEAS_RATE_REG = 0x04"
definition GAIN_REG :: uint8_t where "GAIN_REG = 0x05"
definition PART_ID_REG :: uint8_t where "PART_ID_REG = 0x06"
definition MAIN_STATUS_REG :: uint8_t where "MAIN_STATUS_REG = 0x07"
definition UV_DATA_REG :: uint8_t where "UV_DATA_REG = 0x10"
definition INT_CONF_REG :: uint8_t where "INT_CONF_REG = 0x19"

text \<open>
  A C enumeration is a set of named integer constants; a variable of the enumerated type
  holds any \<^verbatim>\<open>unsigned int\<close>. The datatypes below are the enumerators, the \<open>_val\<close>
  functions their integer values, and the program's functions take and return the
  integers.
\<close>

datatype measurement_mode_t = ALS_MODE | UVS_MODE

fun mode_val :: "measurement_mode_t \<Rightarrow> uint32_t" where
  "mode_val ALS_MODE = 0x02"
| "mode_val UVS_MODE = 0x0A"

datatype gain_t = GAIN_1 | GAIN_3 | GAIN_6 | GAIN_9 | GAIN_18

fun gain_val :: "gain_t \<Rightarrow> uint32_t" where
  "gain_val GAIN_1 = 0"
| "gain_val GAIN_3 = 1"
| "gain_val GAIN_6 = 2"
| "gain_val GAIN_9 = 3"
| "gain_val GAIN_18 = 4"

datatype resolution_t =
  RES_20_BIT | RES_19_BIT | RES_18_BIT | RES_17_BIT | RES_16_BIT | RES_13_BIT

fun resolution_val :: "resolution_t \<Rightarrow> uint32_t" where
  "resolution_val RES_20_BIT = 0"
| "resolution_val RES_19_BIT = 1"
| "resolution_val RES_18_BIT = 2"
| "resolution_val RES_17_BIT = 3"
| "resolution_val RES_16_BIT = 4"
| "resolution_val RES_13_BIT = 5"

datatype meas_rate_t =
  RATE_25 | RATE_50 | RATE_100 | RATE_200 | RATE_500 | RATE_1000 | RATE_2000

fun rate_val :: "meas_rate_t \<Rightarrow> uint32_t" where
  "rate_val RATE_25 = 0"
| "rate_val RATE_50 = 1"
| "rate_val RATE_100 = 2"
| "rate_val RATE_200 = 3"
| "rate_val RATE_500 = 4"
| "rate_val RATE_1000 = 5"
| "rate_val RATE_2000 = 6"

subsection \<open>Formatting: what \<^verbatim>\<open>%u\<close>, \<^verbatim>\<open>%hhu\<close> and \<^verbatim>\<open>%hhx\<close> print\<close>

definition digit_char :: "nat \<Rightarrow> char" where
  "digit_char d = ''0123456789abcdef'' ! d"

fun dec :: "nat \<Rightarrow> string" where
  "dec n = (if n < 10 then [digit_char n] else dec (n div 10) @ [digit_char (n mod 10)])"

fun hex :: "nat \<Rightarrow> string" where
  "hex n = (if n < 16 then [digit_char n] else hex (n div 16) @ [digit_char (n mod 16)])"

declare dec.simps [simp del]
declare hex.simps [simp del]

definition nl :: string where
  "nl = [CHR 0x0A]"

subsection \<open>The printers: the text each writes to standard output\<close>

text \<open>\<^verbatim>\<open>print_mode\<close>, lines 133 to 147.\<close>

definition print_mode :: "uint32_t \<Rightarrow> string" where
  "print_mode mode =
     (if mode = mode_val ALS_MODE then ''mode: ALS'' @ nl
      else if mode = mode_val UVS_MODE then ''mode: UVS'' @ nl
      else ''Unknown mode: '' @ dec (unat mode) @ nl)"

text \<open>\<^verbatim>\<open>print_gain\<close>, lines 233 to 256.\<close>

definition print_gain :: "uint32_t \<Rightarrow> string" where
  "print_gain gain =
     (if gain = gain_val GAIN_1 then ''gain: 1'' @ nl
      else if gain = gain_val GAIN_3 then ''gain: 3'' @ nl
      else if gain = gain_val GAIN_6 then ''gain: 6'' @ nl
      else if gain = gain_val GAIN_9 then ''gain: 9'' @ nl
      else if gain = gain_val GAIN_18 then ''gain: 18'' @ nl
      else ''Unknown gain: '' @ dec (unat gain) @ nl)"

text \<open>
  \<^verbatim>\<open>print_res_meas_rate\<close>, lines 164 to 216: two switches, one on the high nibble and
  one on the low nibble of the register byte, each making one \<^verbatim>\<open>printf\<close> call. The
  scrutinee is a \<^verbatim>\<open>uint8_t\<close>, promoted to \<^verbatim>\<open>int\<close> for the comparison with the
  enumerators. The first switch has no case for \<^verbatim>\<open>RES_13_BIT\<close>.
\<close>

definition print_resolution :: "uint8_t \<Rightarrow> string" where
  "print_resolution resolution =
     (if ucast resolution = resolution_val RES_16_BIT then ''resolution: 16 Bit'' @ nl
      else if ucast resolution = resolution_val RES_17_BIT then ''resolution: 17 Bit'' @ nl
      else if ucast resolution = resolution_val RES_18_BIT then ''resolution: 18 Bit'' @ nl
      else if ucast resolution = resolution_val RES_19_BIT then ''resolution: 19 Bit'' @ nl
      else if ucast resolution = resolution_val RES_20_BIT then ''resolution: 20 Bit'' @ nl
      else ''Unknown resolution: '' @ dec (unat resolution) @ nl)"

definition print_measurement_rate :: "uint8_t \<Rightarrow> string" where
  "print_measurement_rate measurement_rate =
     (if ucast measurement_rate = rate_val RATE_25 then ''measurement rate: 25ms'' @ nl
      else if ucast measurement_rate = rate_val RATE_50 then ''measurement rate: 50ms'' @ nl
      else if ucast measurement_rate = rate_val RATE_100 then ''measurement rate: 100ms'' @ nl
      else if ucast measurement_rate = rate_val RATE_200 then ''measurement rate: 200ms'' @ nl
      else if ucast measurement_rate = rate_val RATE_500 then ''measurement rate: 500ms'' @ nl
      else if ucast measurement_rate = rate_val RATE_1000 then ''measurement rate: 1000ms'' @ nl
      else if ucast measurement_rate = rate_val RATE_2000 then ''measurement rate: 2000ms'' @ nl
      else ''Unknown measurement rate: '' @ dec (unat measurement_rate) @ nl)"

definition print_res_meas_rate :: "uint8_t \<Rightarrow> string list" where
  "print_res_meas_rate res_meas_rate =
     (let resolution = drop_bit 4 res_meas_rate;
          measurement_rate = res_meas_rate AND 0x0f
      in [print_resolution resolution, print_measurement_rate measurement_rate])"

subsection \<open>The bytes the setters put on the bus\<close>

text \<open>
  The initialisers of the one-byte buffers at lines 121, 152 and 221: the
  \<^verbatim>\<open>unsigned int\<close> expression is converted to \<^verbatim>\<open>uint8_t\<close>, which keeps its low
  eight bits.
\<close>

definition mode_buffer :: "uint32_t \<Rightarrow> uint8_t" where
  "mode_buffer mode = ucast mode"

definition gain_buffer :: "uint32_t \<Rightarrow> uint8_t" where
  "gain_buffer gain = ucast gain"

definition res_meas_rate_buffer :: "uint32_t \<Rightarrow> uint32_t \<Rightarrow> uint8_t" where
  "res_meas_rate_buffer resolution rate = ucast (push_bit 4 resolution OR rate)"

subsection \<open>Decoding: the branch a printer's switch takes\<close>

text \<open>
  The program decodes a register value only inside its printers. The functions below
  name the branch that each switch takes: an enumerator, or the default branch with the
  value it prints. \<open>show_mode\<close> and its siblings give the text of each branch, and the
  lemmas \<open>print_mode_decode\<close> to \<open>print_res_meas_rate_decode\<close> tie them to the
  printers.
\<close>

datatype ('a, 'w) decoded = Known 'a | Unknown 'w

definition decode_mode :: "uint32_t \<Rightarrow> (measurement_mode_t, uint32_t) decoded" where
  "decode_mode mode =
     (if mode = mode_val ALS_MODE then Known ALS_MODE
      else if mode = mode_val UVS_MODE then Known UVS_MODE
      else Unknown mode)"

definition decode_gain :: "uint32_t \<Rightarrow> (gain_t, uint32_t) decoded" where
  "decode_gain gain =
     (if gain = gain_val GAIN_1 then Known GAIN_1
      else if gain = gain_val GAIN_3 then Known GAIN_3
      else if gain = gain_val GAIN_6 then Known GAIN_6
      else if gain = gain_val GAIN_9 then Known GAIN_9
      else if gain = gain_val GAIN_18 then Known GAIN_18
      else Unknown gain)"

definition decode_resolution :: "uint8_t \<Rightarrow> (resolution_t, uint8_t) decoded" where
  "decode_resolution resolution =
     (if ucast resolution = resolution_val RES_16_BIT then Known RES_16_BIT
      else if ucast resolution = resolution_val RES_17_BIT then Known RES_17_BIT
      else if ucast resolution = resolution_val RES_18_BIT then Known RES_18_BIT
      else if ucast resolution = resolution_val RES_19_BIT then Known RES_19_BIT
      else if ucast resolution = resolution_val RES_20_BIT then Known RES_20_BIT
      else Unknown resolution)"

definition decode_rate :: "uint8_t \<Rightarrow> (meas_rate_t, uint8_t) decoded" where
  "decode_rate measurement_rate =
     (if ucast measurement_rate = rate_val RATE_25 then Known RATE_25
      else if ucast measurement_rate = rate_val RATE_50 then Known RATE_50
      else if ucast measurement_rate = rate_val RATE_100 then Known RATE_100
      else if ucast measurement_rate = rate_val RATE_200 then Known RATE_200
      else if ucast measurement_rate = rate_val RATE_500 then Known RATE_500
      else if ucast measurement_rate = rate_val RATE_1000 then Known RATE_1000
      else if ucast measurement_rate = rate_val RATE_2000 then Known RATE_2000
      else Unknown measurement_rate)"

definition decode_res_rate ::
  "uint8_t \<Rightarrow> (resolution_t, uint8_t) decoded \<times> (meas_rate_t, uint8_t) decoded" where
  "decode_res_rate res_meas_rate =
     (let resolution = drop_bit 4 res_meas_rate;
          measurement_rate = res_meas_rate AND 0x0f
      in (decode_resolution resolution, decode_rate measurement_rate))"

fun show_mode :: "(measurement_mode_t, uint32_t) decoded \<Rightarrow> string" where
  "show_mode (Known ALS_MODE) = ''mode: ALS'' @ nl"
| "show_mode (Known UVS_MODE) = ''mode: UVS'' @ nl"
| "show_mode (Unknown mode) = ''Unknown mode: '' @ dec (unat mode) @ nl"

fun show_gain :: "(gain_t, uint32_t) decoded \<Rightarrow> string" where
  "show_gain (Known GAIN_1) = ''gain: 1'' @ nl"
| "show_gain (Known GAIN_3) = ''gain: 3'' @ nl"
| "show_gain (Known GAIN_6) = ''gain: 6'' @ nl"
| "show_gain (Known GAIN_9) = ''gain: 9'' @ nl"
| "show_gain (Known GAIN_18) = ''gain: 18'' @ nl"
| "show_gain (Unknown gain) = ''Unknown gain: '' @ dec (unat gain) @ nl"

text \<open>No branch of the resolution switch prints a 13 bit resolution.\<close>

fun show_resolution :: "(resolution_t, uint8_t) decoded \<Rightarrow> string option" where
  "show_resolution (Known RES_16_BIT) = Some (''resolution: 16 Bit'' @ nl)"
| "show_resolution (Known RES_17_BIT) = Some (''resolution: 17 Bit'' @ nl)"
| "show_resolution (Known RES_18_BIT) = Some (''resolution: 18 Bit'' @ nl)"
| "show_resolution (Known RES_19_BIT) = Some (''resolution: 19 Bit'' @ nl)"
| "show_resolution (Known RES_20_BIT) = Some (''resolution: 20 Bit'' @ nl)"
| "show_resolution (Known RES_13_BIT) = None"
| "show_resolution (Unknown resolution) =
     Some (''Unknown resolution: '' @ dec (unat resolution) @ nl)"

fun show_rate :: "(meas_rate_t, uint8_t) decoded \<Rightarrow> string" where
  "show_rate (Known RATE_25) = ''measurement rate: 25ms'' @ nl"
| "show_rate (Known RATE_50) = ''measurement rate: 50ms'' @ nl"
| "show_rate (Known RATE_100) = ''measurement rate: 100ms'' @ nl"
| "show_rate (Known RATE_200) = ''measurement rate: 200ms'' @ nl"
| "show_rate (Known RATE_500) = ''measurement rate: 500ms'' @ nl"
| "show_rate (Known RATE_1000) = ''measurement rate: 1000ms'' @ nl"
| "show_rate (Known RATE_2000) = ''measurement rate: 2000ms'' @ nl"
| "show_rate (Unknown measurement_rate) =
     ''Unknown measurement rate: '' @ dec (unat measurement_rate) @ nl"

subsection \<open>The world the program runs in\<close>

text \<open>
  The transport library (\<^verbatim>\<open>i2cdriver.h\<close>) and the device behind it are not part of the
  program: they are a parameter. \<open>'b\<close> is the state of the bridge and the device.
  \<open>bus_read t b dev reg\<close> is a one-byte \<^verbatim>\<open>i2c_read_register\<close> call: it gives the
  byte that the call leaves in the caller's buffer (which the caller has set to 0) and
  the next state. \<open>bus_write t b dev reg v\<close> is a one-byte \<^verbatim>\<open>i2c_write_register\<close>
  call with its boolean result.
\<close>

record 'b transport =
  bus_connect :: "'b \<Rightarrow> string \<Rightarrow> bool \<times> 'b"
  bus_read :: "'b \<Rightarrow> uint8_t \<Rightarrow> uint8_t \<Rightarrow> uint8_t \<times> 'b"
  bus_write :: "'b \<Rightarrow> uint8_t \<Rightarrow> uint8_t \<Rightarrow> uint8_t \<Rightarrow> bool \<times> 'b"
  bus_disconnect :: "'b \<Rightarrow> 'b"

text \<open>
  What the program does to the outside, in order: the transport calls with their
  arguments (a read with the byte it delivered), the texts printed, the calls of the
  logging macros, and each call of \<^verbatim>\<open>msleep\<close> with its argument.
\<close>

datatype event =
    Connect string
  | BusRead uint8_t uint8_t uint8_t
  | BusWrite uint8_t uint8_t uint8_t
  | Disconnect
  | Stdout string
  | DbgPrint string
  | LogError string
  | LogExit string
  | Msleep int

text \<open>
  \<open>slept\<close> is the time in nanoseconds that the process has spent suspended in
  \<^verbatim>\<open>nanosleep\<close>, and \<open>ncalls\<close> the number of \<^verbatim>\<open>nanosleep\<close> calls it has made.
\<close>

record 'b world =
  bus :: 'b
  trace :: "event list"
  errno :: int
  slept :: nat
  ncalls :: nat

definition EINTR :: int where "EINTR = 4"
definition EINVAL :: int where "EINVAL = 22"
definition EXIT_FAILURE :: int where "EXIT_FAILURE = 1"

definition printf :: "string \<Rightarrow> 'b world \<Rightarrow> 'b world" where
  "printf text s = s\<lparr>trace := trace s @ [Stdout text]\<rparr>"

definition i2c_connect :: "'b transport \<Rightarrow> string \<Rightarrow> 'b world \<Rightarrow> bool \<times> 'b world" where
  "i2c_connect t path s =
     (let (ok, b) = bus_connect t (bus s) path
      in (ok, s\<lparr>bus := b, trace := trace s @ [Connect path]\<rparr>))"

definition i2c_disconnect :: "'b transport \<Rightarrow> 'b world \<Rightarrow> 'b world" where
  "i2c_disconnect t s = s\<lparr>bus := bus_disconnect t (bus s), trace := trace s @ [Disconnect]\<rparr>"

definition i2c_read_register ::
  "'b transport \<Rightarrow> uint8_t \<Rightarrow> uint8_t \<Rightarrow> 'b world \<Rightarrow> uint8_t \<times> 'b world" where
  "i2c_read_register t dev reg s =
     (let (v, b) = bus_read t (bus s) dev reg
      in (v, s\<lparr>bus := b, trace := trace s @ [BusRead dev reg v]\<rparr>))"

definition i2c_write_register ::
  "'b transport \<Rightarrow> uint8_t \<Rightarrow> uint8_t \<Rightarrow> uint8_t \<Rightarrow> 'b world \<Rightarrow> bool \<times> 'b world" where
  "i2c_write_register t dev reg v s =
     (let (ok, b) = bus_write t (bus s) dev reg v
      in (ok, s\<lparr>bus := b, trace := trace s @ [BusWrite dev reg v]\<rparr>))"

text \<open>
  The macros of \<^verbatim>\<open>error.h\<close>, which is not under \<^verbatim>\<open>src/\<close>. \<open>dbgPrint\<close> and
  \<open>logError\<close> are recorded with their formatted text.
\<close>

definition dbgPrint :: "string \<Rightarrow> 'b world \<Rightarrow> 'b world" where
  "dbgPrint text s = s\<lparr>trace := trace s @ [DbgPrint text]\<rparr>"

definition logError :: "string \<Rightarrow> 'b world \<Rightarrow> 'b world" where
  "logError text s = s\<lparr>trace := trace s @ [LogError text]\<rparr>"

text \<open>
  Modelled from the spec: the macro \<^verbatim>\<open>logExit\<close> of \<^verbatim>\<open>error.h\<close> is missing. The spec
  calls the identity mismatch fatal, reported with the observed value, and the process
  exits non-zero: \<open>logExit\<close> reports its text and ends the process with the status
  \<open>EXIT_FAILURE\<close>.
\<close>

definition logExit :: "string \<Rightarrow> 'b world \<Rightarrow> int \<times> 'b world" where
  "logExit text s = (EXIT_FAILURE, s\<lparr>trace := trace s @ [LogExit text]\<rparr>)"

subsection \<open>\<^verbatim>\<open>msleep\<close> (lines 62 to 85)\<close>

record timespec =
  tv_sec :: int
  tv_nsec :: int

definition ns_of :: "timespec \<Rightarrow> nat" where
  "ns_of ts = nat (tv_sec ts * 1000000000 + tv_nsec ts)"

definition timespec_of :: "nat \<Rightarrow> timespec" where
  "timespec_of n = \<lparr>tv_sec = int (n div 1000000000), tv_nsec = int (n mod 1000000000)\<rparr>"

text \<open>
  \<^verbatim>\<open>nanosleep\<close> is the operating system's, modelled by its POSIX contract. An interval
  with a negative field or with \<^verbatim>\<open>tv_nsec\<close> above 999999999 is rejected with
  \<open>EINVAL\<close>. Otherwise the process is suspended; when no signal handler runs before
  the interval has elapsed the call returns 0, and when one runs after \<open>e\<close> nanoseconds
  the call returns -1 with \<open>errno = EINTR\<close> and stores the remaining time. The signals
  are a parameter: \<open>sig k = Some e\<close> says that a handler runs \<open>e\<close> nanoseconds into the
  \<open>k\<close>-th \<^verbatim>\<open>nanosleep\<close> call of the process (if that call sleeps that long). The result
  is the return value, the remaining time and the next world.
\<close>

definition nanosleep ::
  "(nat \<Rightarrow> nat option) \<Rightarrow> timespec \<Rightarrow> 'b world \<Rightarrow> int \<times> timespec \<times> 'b world" where
  "nanosleep sig req s =
     (if tv_sec req < 0 \<or> tv_nsec req < 0 \<or> 999999999 < tv_nsec req
      then (- 1, req, s\<lparr>errno := EINVAL, ncalls := ncalls s + 1\<rparr>)
      else case sig (ncalls s) of
        None \<Rightarrow> (0, req, s\<lparr>slept := slept s + ns_of req, ncalls := ncalls s + 1\<rparr>)
      | Some e \<Rightarrow>
          if e < ns_of req
          then (- 1, timespec_of (ns_of req - e),
                s\<lparr>errno := EINTR, slept := slept s + e, ncalls := ncalls s + 1\<rparr>)
          else (0, req, s\<lparr>slept := slept s + ns_of req, ncalls := ncalls s + 1\<rparr>))"

text \<open>
  The \<^verbatim>\<open>do ... while (res && errno == EINTR)\<close> loop of lines 78 to 82, where
  \<^verbatim>\<open>nanosleep (&ts, &ts)\<close> overwrites the request with the remaining time. Signals
  can interrupt it again and again, so the loop has fuel: one unit per \<^verbatim>\<open>nanosleep\<close>
  call, and \<open>None\<close> when the fuel is used up before the loop ends.
\<close>

fun nanosleep_loop ::
  "nat \<Rightarrow> (nat \<Rightarrow> nat option) \<Rightarrow> timespec \<Rightarrow> 'b world \<Rightarrow> (int \<times> 'b world) option" where
  "nanosleep_loop 0 sig ts s = None"
| "nanosleep_loop (Suc fuel) sig ts s =
     (case nanosleep sig ts s of
        (res, ts', s') \<Rightarrow>
          if res \<noteq> 0 \<and> errno s' = EINTR then nanosleep_loop fuel sig ts' s'
          else Some (res, s'))"

text \<open>
  \<^verbatim>\<open>msec\<close> is a \<^verbatim>\<open>long\<close>. The division and the remainder are only computed for
  \<open>0 \<le> msec\<close>, where C's and HOL's agree, and no operation leaves the range of
  \<^verbatim>\<open>long\<close> (lemma \<open>msleep_timespec\<close>).
\<close>

definition msleep ::
  "nat \<Rightarrow> (nat \<Rightarrow> nat option) \<Rightarrow> int \<Rightarrow> 'b world \<Rightarrow> (bool \<times> 'b world) option" where
  "msleep fuel sig msec s0 =
     (let s = s0\<lparr>trace := trace s0 @ [Msleep msec]\<rparr>
      in if msec < 0 then Some (False, s\<lparr>errno := EINVAL\<rparr>)
         else
           let ts = \<lparr>tv_sec = msec div 1000, tv_nsec = (msec mod 1000) * 1000000\<rparr>
           in case nanosleep_loop fuel sig ts s of
                None \<Rightarrow> None
              | Some (res, s') \<Rightarrow> Some (res = 0, s'))"

subsection \<open>Getters and setters (lines 87 to 131, 149 to 162, 218 to 231)\<close>

definition get_int_conf_reg :: "'b transport \<Rightarrow> 'b world \<Rightarrow> uint8_t \<times> 'b world" where
  "get_int_conf_reg t s = i2c_read_register t DEVICE INT_CONF_REG s"

definition get_status :: "'b transport \<Rightarrow> 'b world \<Rightarrow> uint8_t \<times> 'b world" where
  "get_status t s = i2c_read_register t DEVICE MAIN_STATUS_REG s"

definition set_int_conf_reg :: "'b transport \<Rightarrow> uint8_t \<Rightarrow> 'b world \<Rightarrow> bool \<times> 'b world" where
  "set_int_conf_reg t val s = i2c_write_register t DEVICE INT_CONF_REG val s"

definition get_part_id :: "'b transport \<Rightarrow> 'b world \<Rightarrow> uint8_t \<times> 'b world" where
  "get_part_id t s = i2c_read_register t DEVICE PART_ID_REG s"

definition set_mode :: "'b transport \<Rightarrow> uint32_t \<Rightarrow> 'b world \<Rightarrow> bool \<times> 'b world" where
  "set_mode t mode s = i2c_write_register t DEVICE MAIN_CTRL_REG (mode_buffer mode) s"

definition get_mode :: "'b transport \<Rightarrow> 'b world \<Rightarrow> uint32_t \<times> 'b world" where
  "get_mode t s =
     (let (mode, s') = i2c_read_register t DEVICE MAIN_CTRL_REG s in (ucast mode, s'))"

definition set_res_meas_rate ::
  "'b transport \<Rightarrow> uint32_t \<Rightarrow> uint32_t \<Rightarrow> 'b world \<Rightarrow> bool \<times> 'b world" where
  "set_res_meas_rate t resolution rate s =
     i2c_write_register t DEVICE RES_MEAS_RATE_REG (res_meas_rate_buffer resolution rate) s"

definition get_res_meas_rate :: "'b transport \<Rightarrow> 'b world \<Rightarrow> uint8_t \<times> 'b world" where
  "get_res_meas_rate t s = i2c_read_register t DEVICE RES_MEAS_RATE_REG s"

definition set_gain :: "'b transport \<Rightarrow> uint32_t \<Rightarrow> 'b world \<Rightarrow> bool \<times> 'b world" where
  "set_gain t gain s = i2c_write_register t DEVICE GAIN_REG (gain_buffer gain) s"

definition get_gain :: "'b transport \<Rightarrow> 'b world \<Rightarrow> uint32_t \<times> 'b world" where
  "get_gain t s =
     (let (gain, s') = i2c_read_register t DEVICE GAIN_REG s in (ucast gain, s'))"

text \<open>
  \<^verbatim>\<open>read_raw_data\<close>, lines 258 to 273. The three bytes are promoted to \<^verbatim>\<open>int\<close>
  before they are shifted, and the result is converted to \<^verbatim>\<open>uint32_t\<close>.
\<close>

definition read_raw_data :: "'b transport \<Rightarrow> 'b world \<Rightarrow> uint32_t \<times> 'b world" where
  "read_raw_data t s =
     (let (data0, s1) = i2c_read_register t DEVICE (UV_DATA_REG + 0) s;
          (data1, s2) = i2c_read_register t DEVICE (UV_DATA_REG + 1) s1;
          (data2, s3) = i2c_read_register t DEVICE (UV_DATA_REG + 2) s2;
          s4 = dbgPrint (dec (unat data0) @ '' '' @ dec (unat data1) @ '' '' @
                         dec (unat data2) @ nl) s3;
          raw_data = push_bit 16 (ucast data2) OR push_bit 8 (ucast data1) OR ucast data0
      in (raw_data, s4))"

subsection \<open>\<^verbatim>\<open>main\<close> (lines 275 to 348)\<close>

text \<open>The three settings blocks, lines 305 to 312, 316 to 323 and 327 to 333.\<close>

definition main_mode :: "'b transport \<Rightarrow> 'b world \<Rightarrow> uint32_t \<times> 'b world" where
  "main_mode t s =
     (let (mode, s1) = get_mode t s;
          s2 = printf (''mode raw: 0x'' @ hex (unat (ucast mode :: uint8_t)) @ nl) s1;
          s3 = printf (print_mode mode) s2;
          s4 = printf (''Setting mode to UVS_MODE.'' @ nl) s3;
          (_, s5) = set_mode t (mode_val UVS_MODE) s4;
          (mode', s6) = get_mode t s5;
          s7 = printf (print_mode mode') s6
      in (mode', s7))"

definition main_gain :: "'b transport \<Rightarrow> 'b world \<Rightarrow> uint32_t \<times> 'b world" where
  "main_gain t s =
     (let (gain, s1) = get_gain t s;
          s2 = printf (''gain raw: '' @ dec (unat gain) @ nl) s1;
          s3 = printf (print_gain gain) s2;
          s4 = printf (''Setting gain to 18.'' @ nl) s3;
          (_, s5) = set_gain t (gain_val GAIN_18) s4;
          (gain', s6) = get_gain t s5;
          s7 = printf (print_gain gain') s6
      in (gain', s7))"

definition main_res_meas_rate :: "'b transport \<Rightarrow> 'b world \<Rightarrow> uint8_t \<times> 'b world" where
  "main_res_meas_rate t s =
     (let (res_meas_rate, s1) = get_res_meas_rate t s;
          s2 = fold printf (print_res_meas_rate res_meas_rate) s1;
          s3 = printf (''Setting resolution to 18 bit and rate to 100ms.'' @ nl) s2;
          (_, s4) = set_res_meas_rate t (resolution_val RES_18_BIT) (rate_val RATE_100) s3;
          (res_meas_rate', s5) = get_res_meas_rate t s4;
          s6 = fold printf (print_res_meas_rate res_meas_rate') s5
      in (res_meas_rate', s6))"

text \<open>The body of the \<^verbatim>\<open>for\<close> loop, lines 339 to 343, and the loop, lines 337 to 344.\<close>

definition main_loop_body ::
  "nat \<Rightarrow> 'b transport \<Rightarrow> (nat \<Rightarrow> nat option) \<Rightarrow> 'b world \<Rightarrow> 'b world option" where
  "main_loop_body fuel t sig s =
     (let (status, s1) = get_status t s;
          s2 = printf (''Status: '' @ hex (unat status) @ nl) s1;
          (int_config, s3) = get_int_conf_reg t s2;
          s4 = printf (''Config Register: '' @ hex (unat int_config) @ nl) s3;
          (_, s5) = set_int_conf_reg t 0x30 s4;
          (raw_data, s6) = read_raw_data t s5;
          s7 = printf (''raw data: '' @ dec (unat raw_data) @ nl) s6
      in case msleep fuel sig 100 s7 of
           None \<Rightarrow> None
         | Some (_, s8) \<Rightarrow> Some s8)"

function main_loop ::
  "nat \<Rightarrow> 'b transport \<Rightarrow> (nat \<Rightarrow> nat option) \<Rightarrow> int \<Rightarrow> 'b world \<Rightarrow> 'b world option" where
  "main_loop fuel t sig i s =
     (if i < 10
      then case main_loop_body fuel t sig s of
             None \<Rightarrow> None
           | Some s' \<Rightarrow> main_loop fuel t sig (i + 1) s'
      else Some s)"
  by pat_completeness auto
termination
  by (relation "measure (\<lambda>(fuel, t, sig, i, s). nat (10 - i))") auto

declare main_loop.simps [simp del]

text \<open>
  \<open>main fuel t sig prog args s\<close>: the program is started as \<open>prog\<close> with the arguments
  \<open>args\<close>, so \<^verbatim>\<open>argc\<close> is \<open>1 + length args\<close>, \<^verbatim>\<open>argv[0]\<close> is \<open>prog\<close> and
  \<^verbatim>\<open>argv[1]\<close> is \<open>args ! 0\<close>. The result is the exit status and the final world, or
  \<open>None\<close> when a sleep of the loop runs out of fuel. \<open>fuel\<close> bounds the
  \<^verbatim>\<open>nanosleep\<close> calls of each \<^verbatim>\<open>msleep\<close> call.
\<close>

definition main ::
  "nat \<Rightarrow> 'b transport \<Rightarrow> (nat \<Rightarrow> nat option) \<Rightarrow> string \<Rightarrow> string list \<Rightarrow> 'b world
     \<Rightarrow> (int \<times> 'b world) option" where
  "main fuel t sig prog args s =
     (let argc = 1 + int (length args)
      in if argc < 2
         then Some (EXIT_FAILURE,
                    printf (''Usage: '' @ prog @ '' <USB-DEVICE-TO-FT230-CHIP>'' @ nl) s)
         else
           let (connected, s1) = i2c_connect t (args ! 0) s
           in if \<not> connected
              then Some (EXIT_FAILURE,
                         logError (''Could not connect to '' @ args ! 0 @ nl) s1)
              else
                let (part_id, s2) = get_part_id t s1
                in if part_id \<noteq> 0xb2
                   then Some (logExit (''Wrong Part ID: '' @ dec (unat part_id)) s2)
                   else
                     let s3 = printf (''part id: 0x'' @ hex (unat part_id) @ nl) s2;
                         s4 = printf (''--------------------'' @ nl) s3;
                         (_, s5) = main_mode t s4;
                         s6 = printf (''--------------------'' @ nl) s5;
                         (_, s7) = main_gain t s6;
                         s8 = printf (''--------------------'' @ nl) s7;
                         (_, s9) = main_res_meas_rate t s8;
                         s10 = printf (''--------------------'' @ nl) s9
                     in case main_loop fuel t sig 0 s10 of
                          None \<Rightarrow> None
                        | Some s11 \<Rightarrow> Some (0, i2c_disconnect t s11))"

subsection \<open>Observing a run\<close>

text \<open>
  The kind of each event, without the byte a read delivered and without the text printed:
  the sequence of actions of a run does not depend on what the device answers.
\<close>

datatype action =
    AConnect
  | ARead uint8_t uint8_t
  | AWrite uint8_t uint8_t uint8_t
  | ADisconnect
  | APrint
  | ADebug
  | ALogError
  | ALogExit
  | ASleep int

fun act :: "event \<Rightarrow> action" where
  "act (Connect path) = AConnect"
| "act (BusRead dev reg v) = ARead dev reg"
| "act (BusWrite dev reg v) = AWrite dev reg v"
| "act Disconnect = ADisconnect"
| "act (Stdout text) = APrint"
| "act (DbgPrint text) = ADebug"
| "act (LogError text) = ALogError"
| "act (LogExit text) = ALogExit"
| "act (Msleep msec) = ASleep msec"

text \<open>
  A device that stores every byte written to a register and answers a read with the byte
  stored: its state is the register file. A world at the start of the process.
\<close>

definition register_file :: "(uint8_t \<Rightarrow> uint8_t) transport" where
  "register_file =
     \<lparr>bus_connect = (\<lambda>b path. (True, b)),
      bus_read = (\<lambda>b dev reg. (b reg, b)),
      bus_write = (\<lambda>b dev reg v. (True, b(reg := v))),
      bus_disconnect = (\<lambda>b. b)\<rparr>"

definition world0 :: "'b \<Rightarrow> 'b world" where
  "world0 b = \<lparr>bus = b, trace = [], errno = 0, slept = 0, ncalls = 0\<rparr>"

text \<open>
  The actions of one pass through the body of the loop of \<^verbatim>\<open>main\<close>, and the actions
  of \<^verbatim>\<open>main\<close> from the connection to the start of the loop. The lemmas
  \<open>main_loop_body_effect\<close> and \<open>main_success\<close> show that the program performs them.
\<close>

definition loop_body_actions :: "action list" where
  "loop_body_actions =
     [ARead DEVICE MAIN_STATUS_REG, APrint, ARead DEVICE INT_CONF_REG, APrint,
      AWrite DEVICE INT_CONF_REG 0x30,
      ARead DEVICE UV_DATA_REG, ARead DEVICE (UV_DATA_REG + 1), ARead DEVICE (UV_DATA_REG + 2),
      ADebug, APrint, ASleep 100]"

definition startup_actions :: "action list" where
  "startup_actions =
     [AConnect, ARead DEVICE PART_ID_REG, APrint, APrint,
      ARead DEVICE MAIN_CTRL_REG, APrint, APrint, APrint,
      AWrite DEVICE MAIN_CTRL_REG 0x0A, ARead DEVICE MAIN_CTRL_REG, APrint, APrint,
      ARead DEVICE GAIN_REG, APrint, APrint, APrint,
      AWrite DEVICE GAIN_REG 0x04, ARead DEVICE GAIN_REG, APrint, APrint,
      ARead DEVICE RES_MEAS_RATE_REG, APrint, APrint, APrint,
      AWrite DEVICE RES_MEAS_RATE_REG 0x22, ARead DEVICE RES_MEAS_RATE_REG, APrint, APrint,
      APrint]"

text \<open>The bytes written to the register \<open>reg\<close> in a sequence of actions, in order.\<close>

fun writes_to :: "uint8_t \<Rightarrow> action list \<Rightarrow> uint8_t list" where
  "writes_to reg [] = []"
| "writes_to reg (AWrite dev r v # as) =
     (if r = reg then v # writes_to reg as else writes_to reg as)"
| "writes_to reg (a # as) = writes_to reg as"

text \<open>
  The transport calls of one pass through the loop body, in order, as a function of the
  state of the bridge and the device.
\<close>

definition loop_body_bus :: "'b transport \<Rightarrow> 'b \<Rightarrow> 'b" where
  "loop_body_bus t b =
     (let (status, b1) = bus_read t b DEVICE MAIN_STATUS_REG;
          (int_config, b2) = bus_read t b1 DEVICE INT_CONF_REG;
          (written, b3) = bus_write t b2 DEVICE INT_CONF_REG 0x30;
          (data0, b4) = bus_read t b3 DEVICE UV_DATA_REG;
          (data1, b5) = bus_read t b4 DEVICE (UV_DATA_REG + 1);
          (data2, b6) = bus_read t b5 DEVICE (UV_DATA_REG + 2)
      in b6)"

section \<open>The printers print the decoded value\<close>

lemma print_mode_decode: "print_mode mode = show_mode (decode_mode mode)"
  by (simp add: print_mode_def decode_mode_def)

lemma print_gain_decode: "print_gain gain = show_gain (decode_gain gain)"
  by (simp add: print_gain_def decode_gain_def)

lemma print_resolution_decode:
  "show_resolution (decode_resolution resolution) = Some (print_resolution resolution)"
  by (simp add: print_resolution_def decode_resolution_def)

lemma print_measurement_rate_decode:
  "print_measurement_rate measurement_rate = show_rate (decode_rate measurement_rate)"
  by (simp add: print_measurement_rate_def decode_rate_def)

lemma print_res_meas_rate_decode:
  "map Some (print_res_meas_rate b) =
     [show_resolution (fst (decode_res_rate b)), Some (show_rate (snd (decode_res_rate b)))]"
  by (simp add: print_res_meas_rate_def decode_res_rate_def Let_def
      print_resolution_decode print_measurement_rate_decode)

section \<open>The codec\<close>

text \<open>The enumerators and their values.\<close>

lemma UNIV_measurement_mode_t: "UNIV = {ALS_MODE, UVS_MODE}"
  using measurement_mode_t.exhaust by auto

lemma UNIV_gain_t: "UNIV = {GAIN_1, GAIN_3, GAIN_6, GAIN_9, GAIN_18}"
  using gain_t.exhaust by auto

lemma UNIV_resolution_t:
  "UNIV = {RES_20_BIT, RES_19_BIT, RES_18_BIT, RES_17_BIT, RES_16_BIT, RES_13_BIT}"
  using resolution_t.exhaust by auto

lemma UNIV_meas_rate_t:
  "UNIV = {RATE_25, RATE_50, RATE_100, RATE_200, RATE_500, RATE_1000, RATE_2000}"
  using meas_rate_t.exhaust by auto

lemma range_mode_val: "range mode_val = {0x02, 0x0A}"
  by (simp add: UNIV_measurement_mode_t)

lemma range_gain_val: "range gain_val = {0, 1, 2, 3, 4}"
  by (simp add: UNIV_gain_t)

lemma range_resolution_val: "range resolution_val = {0, 1, 2, 3, 4, 5}"
  by (simp add: UNIV_resolution_t)

lemma range_rate_val: "range rate_val = {0, 1, 2, 3, 4, 5, 6}"
  by (simp add: UNIV_meas_rate_t)

lemma nibbles_of_byte:
  fixes h l :: "4 word"
  shows "drop_bit 4 (push_bit 4 (ucast h) OR ucast l :: uint8_t) = ucast h"
    and "(push_bit 4 (ucast h) OR ucast l :: uint8_t) AND 0x0f = ucast l"
proof -
  show "drop_bit 4 (push_bit 4 (ucast h) OR ucast l :: uint8_t) = ucast h"
    by (rule bit_word_eqI) (auto simp: bit_simps dest: bit_imp_le_length)
  have m: "(0x0f :: uint8_t) = mask 4"
    by (simp add: mask_eq_exp_minus_1)
  show "(push_bit 4 (ucast h) OR ucast l :: uint8_t) AND 0x0f = ucast l"
    unfolding m by (rule bit_word_eqI) (auto simp: bit_simps dest: bit_imp_le_length)
qed

lemma ucast_nibble:
  fixes h :: "4 word"
  shows "ucast (ucast h :: uint8_t) = (ucast h :: uint32_t)"
  by (rule bit_word_eqI) (auto simp: bit_simps dest: bit_imp_le_length)

lemma mode_round_trip: "decode_mode (ucast (mode_buffer (mode_val m))) = Known m"
  by (cases m) (simp_all add: decode_mode_def mode_buffer_def)

lemma gain_round_trip: "decode_gain (ucast (gain_buffer (gain_val g))) = Known g"
  by (cases g) (simp_all add: decode_gain_def gain_buffer_def)

lemma res_rate_round_trip:
  "decode_res_rate (res_meas_rate_buffer (resolution_val r) (rate_val t)) =
     (if r = RES_13_BIT then Unknown 5 else Known r, Known t)"
  by (cases r; cases t)
    (simp_all add: decode_res_rate_def decode_resolution_def decode_rate_def
      res_meas_rate_buffer_def)

section \<open>Claims about the codec\<close>

text \<open>
  Claim C1. The claim asks that decoding the byte written for a resolution and a rate gives
  both back, for every resolution. The program does so for the mode, the gain, the rate
  and five resolutions (lemmas \<open>mode_round_trip\<close>, \<open>gain_round_trip\<close> and
  \<open>res_rate_round_trip\<close>). For \<open>RES_13_BIT\<close> it does not: the byte that
  \<^verbatim>\<open>set_res_meas_rate\<close> writes for it has the high nibble 5, and the switch of
  \<^verbatim>\<open>print_res_meas_rate\<close> has no case for it, so it takes the default branch and
  prints the resolution as unknown.
\<close>

theorem resolution_13_bit_not_decoded:
  "decode_res_rate (res_meas_rate_buffer (resolution_val RES_13_BIT) (rate_val t)) =
     (Unknown 5, Known t) \<and>
   print_res_meas_rate
       (res_meas_rate_buffer (resolution_val RES_13_BIT) (rate_val RATE_100)) =
     [''Unknown resolution: 5'' @ nl, ''measurement rate: 100ms'' @ nl]"
proof -
  have "decode_res_rate (res_meas_rate_buffer (resolution_val RES_13_BIT) (rate_val t)) =
     (Unknown 5, Known t)"
    using res_rate_round_trip [of RES_13_BIT t] by simp
  moreover have "print_res_meas_rate
       (res_meas_rate_buffer (resolution_val RES_13_BIT) (rate_val RATE_100)) =
     [''Unknown resolution: 5'' @ nl, ''measurement rate: 100ms'' @ nl]"
    by (simp add: print_res_meas_rate_def print_resolution_def print_measurement_rate_def
      res_meas_rate_buffer_def dec.simps digit_char_def)
  ultimately show ?thesis ..
qed

text \<open>
  A value outside the enumerators' values takes the default branch of the printer's
  switch, which prints it as unknown with the value itself, for the mode, the gain, the
  resolution nibble and the rate nibble. The byte of the resolution and rate register is
  decoded nibble by nibble: for a byte made of the nibbles \<open>h\<close> and \<open>l\<close> the
  resolution printed is that of \<open>h\<close> alone and the rate that of \<open>l\<close> alone. With an
  unknown rate nibble, each resolution that the switch has a case for is printed as
  itself.
\<close>

lemma unknown_values_decoded:
  fixes h l :: "4 word"
  shows
  "(mode \<notin> range mode_val \<longrightarrow>
      decode_mode mode = Unknown mode \<and>
      print_mode mode = ''Unknown mode: '' @ dec (unat mode) @ nl) \<and>
   (gain \<notin> range gain_val \<longrightarrow>
      decode_gain gain = Unknown gain \<and>
      print_gain gain = ''Unknown gain: '' @ dec (unat gain) @ nl) \<and>
   (ucast resolution \<notin> range resolution_val \<longrightarrow>
      decode_resolution resolution = Unknown resolution \<and>
      print_resolution resolution =
        ''Unknown resolution: '' @ dec (unat resolution) @ nl) \<and>
   (ucast rate \<notin> range rate_val \<longrightarrow>
      decode_rate rate = Unknown rate \<and>
      print_measurement_rate rate = ''Unknown measurement rate: '' @ dec (unat rate) @ nl) \<and>
   decode_res_rate (push_bit 4 (ucast h) OR ucast l) =
     (decode_resolution (ucast h), decode_rate (ucast l)) \<and>
   (ucast h \<notin> range resolution_val \<longrightarrow>
      decode_res_rate (push_bit 4 (ucast h) OR ucast (rate_val t)) =
        (Unknown (ucast h), Known t)) \<and>
   (ucast l \<notin> range rate_val \<longrightarrow>
      decode_res_rate (push_bit 4 (ucast (resolution_val r)) OR ucast l) =
        (decode_resolution (ucast (resolution_val r)), Unknown (ucast l)))"
proof -
  have split: "decode_res_rate (push_bit 4 (ucast h') OR ucast l') =
     (decode_resolution (ucast h'), decode_rate (ucast l'))" for h' l' :: "4 word"
    by (simp only: decode_res_rate_def Let_def nibbles_of_byte)
  have res: "decode_resolution x = Unknown x \<and>
      print_resolution x = ''Unknown resolution: '' @ dec (unat x) @ nl"
    if "ucast x \<notin> range resolution_val" for x
    using that by (simp add: range_resolution_val decode_resolution_def print_resolution_def)
  have rate: "decode_rate x = Unknown x \<and>
      print_measurement_rate x = ''Unknown measurement rate: '' @ dec (unat x) @ nl"
    if "ucast x \<notin> range rate_val" for x
    using that by (simp add: range_rate_val decode_rate_def print_measurement_rate_def)
  have mode: "decode_mode mode = Unknown mode \<and>
      print_mode mode = ''Unknown mode: '' @ dec (unat mode) @ nl"
    if "mode \<notin> range mode_val"
    using that by (simp add: range_mode_val decode_mode_def print_mode_def)
  have gain: "decode_gain gain = Unknown gain \<and>
      print_gain gain = ''Unknown gain: '' @ dec (unat gain) @ nl"
    if "gain \<notin> range gain_val"
    using that by (simp add: range_gain_val decode_gain_def print_gain_def)
  have known_rate: "decode_rate (ucast (ucast (rate_val t) :: 4 word)) = Known t"
    by (cases t) (simp_all add: decode_rate_def)
  have rate_nibble: "(ucast (rate_val t) :: uint8_t) = ucast (ucast (rate_val t) :: 4 word)"
    by (cases t) simp_all
  have res_nibble:
    "(ucast (resolution_val r) :: uint8_t) = ucast (ucast (resolution_val r) :: 4 word)"
    by (cases r) simp_all
  have hi: "decode_res_rate (push_bit 4 (ucast h) OR ucast (rate_val t)) =
        (Unknown (ucast h), Known t)" if "ucast h \<notin> range resolution_val"
  proof -
    have "ucast (ucast h :: uint8_t) \<notin> range resolution_val"
      using that by (simp add: ucast_nibble)
    from res [OF this] show ?thesis
      by (simp add: rate_nibble split known_rate)
  qed
  have lo: "decode_res_rate (push_bit 4 (ucast (resolution_val r)) OR ucast l) =
        (decode_resolution (ucast (resolution_val r)), Unknown (ucast l))"
    if "ucast l \<notin> range rate_val"
  proof -
    have "ucast (ucast l :: uint8_t) \<notin> range rate_val"
      using that by (simp add: ucast_nibble)
    from rate [OF this] split [of "ucast (resolution_val r)" l] show ?thesis
      by (simp flip: res_nibble)
  qed
  from split [of h l] res rate mode gain hi lo show ?thesis
    by blast
qed

lemma known_resolution_unknown_rate:
  fixes l :: "4 word"
  assumes "ucast l \<notin> range rate_val" and "r \<noteq> RES_13_BIT"
  shows "decode_res_rate (push_bit 4 (ucast (resolution_val r)) OR ucast l) =
           (Known r, Unknown (ucast l))"
    and "map Some (print_res_meas_rate (push_bit 4 (ucast (resolution_val r)) OR ucast l)) =
           [show_resolution (Known r),
            Some (''Unknown measurement rate: '' @ dec (unat (ucast l :: uint8_t)) @ nl)]"
proof -
  have known: "decode_resolution (ucast (resolution_val r)) = Known r"
    using assms(2) by (cases r) (simp_all add: decode_resolution_def)
  from unknown_values_decoded [where l = l and r = r and h = 0 and mode = 0 and gain = 0
      and resolution = 0 and rate = "ucast l" and t = RATE_25] assms(1)
  have d: "decode_res_rate (push_bit 4 (ucast (resolution_val r)) OR ucast l) =
      (decode_resolution (ucast (resolution_val r)), Unknown (ucast l))"
    and "ucast (ucast l :: uint8_t) \<notin> range rate_val \<longrightarrow>
      decode_rate (ucast l) = Unknown (ucast l)"
    by blast+
  with known show dec: "decode_res_rate (push_bit 4 (ucast (resolution_val r)) OR ucast l) =
           (Known r, Unknown (ucast l))"
    by simp
  from print_res_meas_rate_decode [of "push_bit 4 (ucast (resolution_val r)) OR ucast l"]
  show "map Some (print_res_meas_rate (push_bit 4 (ucast (resolution_val r)) OR ucast l)) =
           [show_resolution (Known r),
            Some (''Unknown measurement rate: '' @ dec (unat (ucast l :: uint8_t)) @ nl)]"
    by (simp only: dec fst_conv snd_conv show_rate.simps)
qed

text \<open>
  Claim C4. The claim asks that values outside the known set are reported as unknown, and
  that in the resolution and rate byte an unknown nibble on one side does not keep a known
  nibble on the other side from decoding to its value. The program does the first (lemma
  \<open>unknown_values_decoded\<close>), and the second for an unknown resolution nibble and for
  the resolutions 16 to 20 bit (lemma \<open>known_resolution_unknown_rate\<close>). For the byte
  0x5F, the nibble of \<open>RES_13_BIT\<close> with the unknown rate nibble 15, it prints both as
  unknown: the switch of \<^verbatim>\<open>print_res_meas_rate\<close> has no case for \<open>RES_13_BIT\<close>.
  The other five resolutions decode to themselves with the same rate nibble.
\<close>

theorem unknown_rate_hides_13_bit_resolution:
  "push_bit 4 (ucast (resolution_val RES_13_BIT)) OR 0x0F = (0x5F :: uint8_t) \<and>
   decode_res_rate 0x5F = (Unknown 5, Unknown 0x0F) \<and>
   print_res_meas_rate 0x5F =
     [''Unknown resolution: 5'' @ nl, ''Unknown measurement rate: 15'' @ nl] \<and>
   map (\<lambda>r. decode_res_rate (push_bit 4 (ucast (resolution_val r)) OR 0x0F))
       [RES_20_BIT, RES_19_BIT, RES_18_BIT, RES_17_BIT, RES_16_BIT] =
     [(Known RES_20_BIT, Unknown 0x0F), (Known RES_19_BIT, Unknown 0x0F),
      (Known RES_18_BIT, Unknown 0x0F), (Known RES_17_BIT, Unknown 0x0F),
      (Known RES_16_BIT, Unknown 0x0F)] \<and>
   map (\<lambda>r. print_res_meas_rate (push_bit 4 (ucast (resolution_val r)) OR 0x0F))
       [RES_20_BIT, RES_19_BIT, RES_18_BIT, RES_17_BIT, RES_16_BIT] =
     [[''resolution: 20 Bit'' @ nl, ''Unknown measurement rate: 15'' @ nl],
      [''resolution: 19 Bit'' @ nl, ''Unknown measurement rate: 15'' @ nl],
      [''resolution: 18 Bit'' @ nl, ''Unknown measurement rate: 15'' @ nl],
      [''resolution: 17 Bit'' @ nl, ''Unknown measurement rate: 15'' @ nl],
      [''resolution: 16 Bit'' @ nl, ''Unknown measurement rate: 15'' @ nl]]"
  by (simp add: decode_res_rate_def decode_resolution_def decode_rate_def
      print_res_meas_rate_def print_resolution_def print_measurement_rate_def
      dec.simps digit_char_def)

section \<open>What each operation changes\<close>

lemma printf_simps [simp]:
  "trace (printf x s) = trace s @ [Stdout x]"
  "bus (printf x s) = bus s"
  "errno (printf x s) = errno s"
  "slept (printf x s) = slept s"
  "ncalls (printf x s) = ncalls s"
  by (simp_all add: printf_def)

lemma dbgPrint_simps [simp]:
  "trace (dbgPrint x s) = trace s @ [DbgPrint x]"
  "bus (dbgPrint x s) = bus s"
  "errno (dbgPrint x s) = errno s"
  "slept (dbgPrint x s) = slept s"
  "ncalls (dbgPrint x s) = ncalls s"
  by (simp_all add: dbgPrint_def)

lemma i2c_read_register_simps [simp]:
  "fst (i2c_read_register t dev reg s) = fst (bus_read t (bus s) dev reg)"
  "trace (snd (i2c_read_register t dev reg s)) =
     trace s @ [BusRead dev reg (fst (bus_read t (bus s) dev reg))]"
  "bus (snd (i2c_read_register t dev reg s)) = snd (bus_read t (bus s) dev reg)"
  "errno (snd (i2c_read_register t dev reg s)) = errno s"
  "slept (snd (i2c_read_register t dev reg s)) = slept s"
  "ncalls (snd (i2c_read_register t dev reg s)) = ncalls s"
  by (simp_all add: i2c_read_register_def split_def Let_def)

lemma i2c_write_register_simps [simp]:
  "fst (i2c_write_register t dev reg v s) = fst (bus_write t (bus s) dev reg v)"
  "trace (snd (i2c_write_register t dev reg v s)) = trace s @ [BusWrite dev reg v]"
  "bus (snd (i2c_write_register t dev reg v s)) = snd (bus_write t (bus s) dev reg v)"
  "errno (snd (i2c_write_register t dev reg v s)) = errno s"
  "slept (snd (i2c_write_register t dev reg v s)) = slept s"
  "ncalls (snd (i2c_write_register t dev reg v s)) = ncalls s"
  by (simp_all add: i2c_write_register_def split_def Let_def)

lemma i2c_connect_simps [simp]:
  "fst (i2c_connect t path s) = fst (bus_connect t (bus s) path)"
  "trace (snd (i2c_connect t path s)) = trace s @ [Connect path]"
  "bus (snd (i2c_connect t path s)) = snd (bus_connect t (bus s) path)"
  "errno (snd (i2c_connect t path s)) = errno s"
  "slept (snd (i2c_connect t path s)) = slept s"
  "ncalls (snd (i2c_connect t path s)) = ncalls s"
  by (simp_all add: i2c_connect_def split_def Let_def)

lemma i2c_disconnect_simps [simp]:
  "trace (i2c_disconnect t s) = trace s @ [Disconnect]"
  "bus (i2c_disconnect t s) = bus_disconnect t (bus s)"
  "errno (i2c_disconnect t s) = errno s"
  "slept (i2c_disconnect t s) = slept s"
  "ncalls (i2c_disconnect t s) = ncalls s"
  by (simp_all add: i2c_disconnect_def)

lemma fold_printf_simps [simp]:
  "trace (fold printf xs s) = trace s @ map Stdout xs"
  "bus (fold printf xs s) = bus s"
  "errno (fold printf xs s) = errno s"
  "slept (fold printf xs s) = slept s"
  "ncalls (fold printf xs s) = ncalls s"
  by (induction xs arbitrary: s; simp)+

section \<open>Sleeping\<close>

text \<open>The interval that \<^verbatim>\<open>nanosleep\<close> stores as remaining time is valid and exact.\<close>

lemma ns_of_timespec_of [simp]: "ns_of (timespec_of n) = n"
proof -
  have "int (n div 1000000000) * 1000000000 + int (n mod 1000000000) = int n"
    by (simp add: zdiv_int zmod_int)
  then show ?thesis
    by (simp add: ns_of_def timespec_of_def)
qed

lemma timespec_of_valid [simp]:
  "0 \<le> tv_sec (timespec_of n)" "0 \<le> tv_nsec (timespec_of n)"
  "tv_nsec (timespec_of n) \<le> 999999999"
  by (simp_all add: timespec_of_def)

lemma nanosleep_loop_unfold:
  "nanosleep_loop fuel sig ts s =
     (if fuel = 0 then None
      else case nanosleep sig ts s of
        (res, ts', s') \<Rightarrow>
          if res \<noteq> 0 \<and> errno s' = EINTR then nanosleep_loop (fuel - 1) sig ts' s'
          else Some (res, s'))"
  by (induct fuel) (simp_all split: prod.split)

lemma nanosleep_loop_frame:
  "nanosleep_loop fuel sig ts s = Some (res, s') \<Longrightarrow> trace s' = trace s \<and> bus s' = bus s"
proof (induction fuel arbitrary: ts s)
  case 0
  then show ?case by simp
next
  case (Suc fuel)
  then show ?case
    by (auto simp: nanosleep_def split: if_splits option.splits)
qed

lemma nanosleep_loop_slept:
  assumes "0 \<le> tv_sec ts" "0 \<le> tv_nsec ts" "tv_nsec ts \<le> 999999999"
    and "nanosleep_loop fuel sig ts s = Some (res, s')"
  shows "res = 0 \<and> slept s' = slept s + ns_of ts \<and> ncalls s < ncalls s'"
  using assms
proof (induction fuel arbitrary: ts s)
  case 0
  then show ?case by simp
next
  case (Suc fuel)
  show ?case
  proof (cases "sig (ncalls s)")
    case None
    with Suc.prems show ?thesis
      by (auto simp: nanosleep_def)
  next
    case (Some e)
    show ?thesis
    proof (cases "e < ns_of ts")
      case True
      let ?ts = "timespec_of (ns_of ts - e)"
      let ?s = "s\<lparr>errno := EINTR, slept := slept s + e, ncalls := ncalls s + 1\<rparr>"
      from Suc.prems Some True
      have "nanosleep_loop fuel sig ?ts ?s = Some (res, s')"
        by (simp add: nanosleep_def)
      from Suc.IH [OF _ _ _ this] True show ?thesis
        by simp
    next
      case False
      with Suc.prems Some show ?thesis
        by (auto simp: nanosleep_def)
    qed
  qed
qed

text \<open>
  The loop ends as soon as one \<^verbatim>\<open>nanosleep\<close> call is not interrupted, so fuel for the
  calls up to that one is enough.
\<close>

lemma nanosleep_loop_total:
  "\<exists>j<fuel. sig (ncalls s + j) = None \<Longrightarrow> \<exists>r. nanosleep_loop fuel sig ts s = Some r"
proof (induction fuel arbitrary: ts s)
  case 0
  then show ?case by simp
next
  case (Suc fuel)
  then obtain j where j: "j < Suc fuel" "sig (ncalls s + j) = None"
    by blast
  show ?case
  proof (cases "sig (ncalls s)")
    case None
    then show ?thesis
      by (simp add: nanosleep_def EINTR_def EINVAL_def)
  next
    case (Some e)
    with j obtain k where k: "j = Suc k"
      by (cases j) auto
    let ?s = "s\<lparr>errno := EINTR, slept := slept s + e, ncalls := ncalls s + 1\<rparr>"
    from j k have "\<exists>j<fuel. sig (ncalls ?s + j) = None"
      by auto
    from Suc.IH [OF this] Some show ?thesis
      by (auto simp: nanosleep_def EINTR_def EINVAL_def)
  qed
qed

text \<open>
  The interval that \<^verbatim>\<open>msleep\<close> computes is valid, is \<open>msec\<close> milliseconds long, and its
  fields fit the type \<^verbatim>\<open>long\<close> of \<open>msec\<close>.
\<close>

lemma msleep_timespec:
  assumes "0 \<le> msec"
  shows "0 \<le> msec div 1000" "msec div 1000 \<le> msec"
    "0 \<le> (msec mod 1000) * 1000000" "(msec mod 1000) * 1000000 \<le> 999000000"
    "ns_of \<lparr>tv_sec = msec div 1000, tv_nsec = (msec mod 1000) * 1000000\<rparr> =
       nat msec * 1000000"
proof -
  show nonneg: "0 \<le> msec div 1000" using assms by simp
  show "msec div 1000 \<le> msec"
    using nonneg mult_div_mod_eq [of 1000 msec] pos_mod_sign [of 1000 msec] by linarith
  show "0 \<le> (msec mod 1000) * 1000000" by simp
  have "msec mod 1000 < 1000" by simp
  then show "(msec mod 1000) * 1000000 \<le> 999000000" by linarith
  have "msec div 1000 * 1000000000 + msec mod 1000 * 1000000 = msec * 1000000"
    using mult_div_mod_eq [of 1000 msec] by linarith
  then show "ns_of \<lparr>tv_sec = msec div 1000, tv_nsec = (msec mod 1000) * 1000000\<rparr> =
       nat msec * 1000000"
    using assms by (simp add: ns_of_def nat_mult_distrib)
qed

lemma msleep_frame:
  "msleep fuel sig msec s = Some (ok, s') \<Longrightarrow>
     trace s' = trace s @ [Msleep msec] \<and> bus s' = bus s"
  by (auto simp: msleep_def Let_def split: if_splits option.splits
      dest!: nanosleep_loop_frame)

lemma msleep_slept:
  assumes "0 \<le> msec" and "msleep fuel sig msec s = Some (ok, s')"
  shows "ok \<and> slept s' = slept s + nat msec * 1000000 \<and> ncalls s < ncalls s'"
proof -
  let ?ts = "\<lparr>tv_sec = msec div 1000, tv_nsec = (msec mod 1000) * 1000000\<rparr>"
  let ?s = "s\<lparr>trace := trace s @ [Msleep msec]\<rparr>"
  from assms obtain res where loop: "nanosleep_loop fuel sig ?ts ?s = Some (res, s')"
    and ok: "ok = (res = 0)"
    by (auto simp: msleep_def Let_def split: option.splits)
  have "res = 0 \<and> slept s' = slept ?s + ns_of ?ts \<and> ncalls ?s < ncalls s'"
    using msleep_timespec [OF assms(1)] loop
    by (intro nanosleep_loop_slept [where fuel = fuel and sig = sig]) simp_all
  with ok msleep_timespec(5) [OF assms(1)] show ?thesis
    by simp
qed

lemma msleep_total:
  "\<exists>j<fuel. sig (ncalls s + j) = None \<Longrightarrow> \<exists>r. msleep fuel sig msec s = Some r"
proof -
  assume a: "\<exists>j<fuel. sig (ncalls s + j) = None"
  let ?ts = "\<lparr>tv_sec = msec div 1000, tv_nsec = (msec mod 1000) * 1000000\<rparr>"
  let ?s = "s\<lparr>trace := trace s @ [Msleep msec]\<rparr>"
  from a have "\<exists>j<fuel. sig (ncalls ?s + j) = None" by simp
  from nanosleep_loop_total [OF this, of ?ts] show ?thesis
    by (auto simp: msleep_def Let_def)
qed

text \<open>
  A call that a signal interrupts is followed by another call: the loop does not end
  with the interrupted one.
\<close>

lemma nanosleep_loop_resumed:
  assumes "0 \<le> tv_sec ts" "0 \<le> tv_nsec ts" "tv_nsec ts \<le> 999999999"
    and "sig (ncalls s) = Some e" "e < ns_of ts"
    and "nanosleep_loop fuel sig ts s = Some (res, s')"
  shows "ncalls s + 2 \<le> ncalls s'"
proof (cases fuel)
  case 0
  with assms(6) show ?thesis by simp
next
  case (Suc f)
  let ?ts = "timespec_of (ns_of ts - e)"
  let ?s = "s\<lparr>errno := EINTR, slept := slept s + e, ncalls := ncalls s + 1\<rparr>"
  from assms Suc have "nanosleep_loop f sig ?ts ?s = Some (res, s')"
    by (simp add: nanosleep_def)
  from nanosleep_loop_slept [OF _ _ _ this] show ?thesis
    by simp
qed

lemma msleep_resumed:
  assumes "0 \<le> msec" and "msleep fuel sig msec s = Some (ok, s')"
    and "sig (ncalls s) = Some e" "e < nat msec * 1000000"
  shows "ncalls s + 2 \<le> ncalls s'"
proof -
  let ?ts = "\<lparr>tv_sec = msec div 1000, tv_nsec = (msec mod 1000) * 1000000\<rparr>"
  let ?s = "s\<lparr>trace := trace s @ [Msleep msec]\<rparr>"
  from assms(1,2) obtain res where loop: "nanosleep_loop fuel sig ?ts ?s = Some (res, s')"
    by (auto simp: msleep_def Let_def split: option.splits)
  have "ncalls ?s + 2 \<le> ncalls s'"
    using msleep_timespec [OF assms(1)] assms(3,4) loop
    by (intro nanosleep_loop_resumed [where fuel = fuel and sig = sig and e = e]) simp_all
  then show ?thesis by simp
qed

section \<open>The loop and \<^verbatim>\<open>main\<close>\<close>

lemmas reg_defs = DEVICE_def MAIN_CTRL_REG_def RES_MEAS_RATE_REG_def GAIN_REG_def
  PART_ID_REG_def MAIN_STATUS_REG_def UV_DATA_REG_def INT_CONF_REG_def

lemmas op_defs = get_int_conf_reg_def get_status_def set_int_conf_reg_def get_part_id_def
  set_mode_def get_mode_def set_res_meas_rate_def get_res_meas_rate_def set_gain_def
  get_gain_def read_raw_data_def

lemma msleep_100:
  assumes "msleep fuel sig 100 s = Some (ok, s')"
  shows "trace s' = trace s @ [Msleep 100] \<and> slept s' = slept s + 100000000"
  using msleep_frame [OF assms] msleep_slept [OF _ assms] by simp

lemma main_loop_body_effect:
  assumes "main_loop_body fuel t sig s = Some s'"
  shows "map act (trace s') = map act (trace s) @ loop_body_actions"
    and "slept s' = slept s + 100000000"
  using assms
  by (auto simp: main_loop_body_def Let_def split_def op_defs loop_body_actions_def
      split: option.splits dest!: msleep_100)

lemma main_loop_effect:
  "main_loop fuel t sig i s = Some s' \<Longrightarrow> i \<le> 10 \<Longrightarrow>
     map act (trace s') = map act (trace s) @ concat (replicate (nat (10 - i)) loop_body_actions) \<and>
     slept s' = slept s + nat (10 - i) * 100000000"
proof (induction fuel t sig i s rule: main_loop.induct)
  case (1 fuel t sig i s)
  show ?case
  proof (cases "i < 10")
    case True
    with "1.prems" obtain s1 where body: "main_loop_body fuel t sig s = Some s1"
      and rest: "main_loop fuel t sig (i + 1) s1 = Some s'"
      by (subst (asm) main_loop.simps) (auto split: option.splits)
    have n: "nat (10 - i) = Suc (nat (10 - (i + 1)))"
      using True by simp
    from "1.IH" [OF True body rest] True
    have "map act (trace s') =
        map act (trace s1) @ concat (replicate (nat (10 - (i + 1))) loop_body_actions) \<and>
      slept s' = slept s1 + nat (10 - (i + 1)) * 100000000"
      by simp
    with main_loop_body_effect [OF body] show ?thesis
      by (simp add: n)
  next
    case False
    with "1.prems" show ?thesis
      by (subst (asm) main_loop.simps) simp
  qed
qed

lemma main_loop_body_total:
  assumes "\<exists>j<fuel. sig (ncalls s + j) = None"
  shows "\<exists>s'. main_loop_body fuel t sig s = Some s'"
proof -
  have *: "\<exists>ok s8. msleep fuel sig 100 s7 = Some (ok, s8)"
    if "ncalls s7 = ncalls s" for s7 :: "'a world"
    using msleep_total [of fuel sig s7 100] assms that by simp
  have "main_loop_body fuel t sig s \<noteq> None"
    apply (simp add: main_loop_body_def Let_def split_def split: option.splits)
    apply (rule *)
    apply (simp add: op_defs Let_def split_def)
    done
  then show ?thesis by auto
qed

lemma main_loop_total:
  assumes "\<And>k. \<exists>j<fuel. sig (k + j) = None"
  shows "\<exists>s'. main_loop fuel t sig i s = Some s'"
  using assms
proof (induction fuel t sig i s rule: main_loop.induct)
  case (1 fuel t sig i s)
  show ?case
  proof (cases "i < 10")
    case True
    from main_loop_body_total [of fuel sig s t] "1.prems"
    obtain s1 where body: "main_loop_body fuel t sig s = Some s1"
      by blast
    from "1.IH" [OF True body "1.prems"] body True show ?thesis
      by (subst main_loop.simps) simp
  next
    case False
    then show ?thesis
      by (subst main_loop.simps) simp
  qed
qed

lemma buffer_values [simp]:
  "mode_buffer 0x0A = 0x0A"
  "gain_buffer 0x04 = 0x04"
  "res_meas_rate_buffer 0x02 0x02 = 0x22"
  by (simp_all add: mode_buffer_def gain_buffer_def res_meas_rate_buffer_def)

lemma main_mode_effect [simp]:
  "map act (trace (snd (main_mode t s))) =
     map act (trace s) @
       [ARead DEVICE MAIN_CTRL_REG, APrint, APrint, APrint,
        AWrite DEVICE MAIN_CTRL_REG 0x0A, ARead DEVICE MAIN_CTRL_REG, APrint]"
  "slept (snd (main_mode t s)) = slept s"
  "ncalls (snd (main_mode t s)) = ncalls s"
  by (simp_all add: main_mode_def Let_def split_def op_defs)

lemma main_gain_effect [simp]:
  "map act (trace (snd (main_gain t s))) =
     map act (trace s) @
       [ARead DEVICE GAIN_REG, APrint, APrint, APrint,
        AWrite DEVICE GAIN_REG 0x04, ARead DEVICE GAIN_REG, APrint]"
  "slept (snd (main_gain t s)) = slept s"
  "ncalls (snd (main_gain t s)) = ncalls s"
  by (simp_all add: main_gain_def Let_def split_def op_defs)

lemma main_res_meas_rate_effect [simp]:
  "map act (trace (snd (main_res_meas_rate t s))) =
     map act (trace s) @
       [ARead DEVICE RES_MEAS_RATE_REG, APrint, APrint, APrint,
        AWrite DEVICE RES_MEAS_RATE_REG 0x22, ARead DEVICE RES_MEAS_RATE_REG, APrint, APrint]"
  "slept (snd (main_res_meas_rate t s)) = slept s"
  "ncalls (snd (main_res_meas_rate t s)) = ncalls s"
  by (simp_all add: main_res_meas_rate_def Let_def split_def op_defs print_res_meas_rate_def
      comp_def)

lemma main_success:
  assumes "main fuel t sig prog args s = Some (0, s')"
  shows "map act (trace s') =
           map act (trace s) @ startup_actions @ concat (replicate 10 loop_body_actions) @
           [ADisconnect]"
    and "slept s' = slept s + 1000000000"
  using assms
  by (auto simp: main_def Let_def split_def EXIT_FAILURE_def logExit_def get_part_id_def
      startup_actions_def split: if_splits option.splits dest!: main_loop_effect)

lemma main_failure:
  assumes "main fuel t sig prog args s = Some (rc, s')" and "rc \<noteq> 0"
  shows "rc = EXIT_FAILURE"
    and "map act (trace s') = map act (trace s) @ [APrint] \<or>
         map act (trace s') = map act (trace s) @ [AConnect, ALogError] \<or>
         map act (trace s') = map act (trace s) @ [AConnect, ARead DEVICE PART_ID_REG, ALogExit]"
  using assms
  by (auto simp: main_def Let_def split_def logExit_def logError_def get_part_id_def
      split: if_splits option.splits)

section \<open>Runs of \<^verbatim>\<open>main\<close> and the raw measurement\<close>

lemma writes_to_append [simp]: "writes_to reg (xs @ ys) = writes_to reg xs @ writes_to reg ys"
  by (induction reg xs rule: writes_to.induct) simp_all

lemma writes_to_replicate:
  "writes_to reg xs = [] \<Longrightarrow> writes_to reg (concat (replicate n xs)) = []"
  by (induction n) simp_all

lemma raw_data_bytes:
  fixes data0 data1 data2 :: uint8_t
  defines "raw_data \<equiv> push_bit 16 (ucast data2) OR push_bit 8 (ucast data1) OR ucast data0 :: uint32_t"
  shows "ucast raw_data = data0" "ucast (drop_bit 8 raw_data) = data1"
    "ucast (drop_bit 16 raw_data) = data2" "unat raw_data < 16777216"
proof -
  show "ucast raw_data = data0"
    unfolding raw_data_def
    by (rule bit_word_eqI) (auto simp: bit_simps dest: bit_imp_le_length)
  show "ucast (drop_bit 8 raw_data) = data1"
    unfolding raw_data_def
    by (rule bit_word_eqI) (auto simp: bit_simps dest: bit_imp_le_length)
  show "ucast (drop_bit 16 raw_data) = data2"
    unfolding raw_data_def
    by (rule bit_word_eqI) (auto simp: bit_simps dest: bit_imp_le_length)
  have "take_bit 24 raw_data = raw_data"
    unfolding raw_data_def
    by (rule bit_word_eqI) (auto simp: bit_simps dest: bit_imp_le_length)
  then have "unat raw_data = take_bit 24 (unat raw_data)"
    by (metis unsigned_take_bit_eq)
  moreover have "take_bit 24 (unat raw_data) < 2 ^ 24"
    by (rule take_bit_nat_less_exp)
  ultimately show "unat raw_data < 16777216"
    by simp
qed

lemma identity_mismatch:
  assumes "fst (bus_connect t (bus s) path)"
    and "fst (bus_read t (snd (bus_connect t (bus s) path)) DEVICE PART_ID_REG) = v"
    and "v \<noteq> 0xb2"
  shows "\<exists>s'. main fuel t sig prog (path # rest) s = Some (EXIT_FAILURE, s') \<and>
    trace s' = trace s @ [Connect path, BusRead DEVICE PART_ID_REG v,
                 LogExit (''Wrong Part ID: '' @ dec (unat v))]"
  using assms
  by (simp add: main_def Let_def split_def get_part_id_def logExit_def)

lemma main_identified:
  assumes "fst (bus_connect t (bus s) path)"
    and "fst (bus_read t (snd (bus_connect t (bus s) path)) DEVICE PART_ID_REG) = 0xb2"
    and "\<And>k. \<exists>j<fuel. sig (k + j) = None"
  shows "\<exists>s'. main fuel t sig prog (path # rest) s = Some (0, s')"
proof -
  have "\<exists>s'. main_loop fuel t sig 0 s10 = Some s'" for s10 :: "'a world"
    using assms(3) by (rule main_loop_total)
  then show ?thesis
    using assms(1,2)
    by (simp add: main_def Let_def split_def get_part_id_def split: option.splits)
qed


lemma ucast_byte:
  fixes b :: uint8_t
  shows "ucast (ucast b :: uint32_t) = b"
  by (rule bit_word_eqI) (auto simp: bit_simps)

lemma main_runs:
  "\<exists>s'. main 1 register_file (\<lambda>k. None) prog (path # rest)
          (world0 (\<lambda>reg. if reg = 0x06 then 0xb2 else 0)) = Some (0, s')"
  by (rule main_identified) (simp_all add: register_file_def world0_def reg_defs)

lemma writes_to_main_actions:
  "writes_to RES_MEAS_RATE_REG startup_actions = [0x22]"
  "writes_to RES_MEAS_RATE_REG (concat (replicate n loop_body_actions)) = []"
proof -
  show "writes_to RES_MEAS_RATE_REG startup_actions = [0x22]"
    by (simp add: startup_actions_def reg_defs)
  have "writes_to RES_MEAS_RATE_REG loop_body_actions = []"
    by (simp add: loop_body_actions_def reg_defs)
  then show "writes_to RES_MEAS_RATE_REG (concat (replicate n loop_body_actions)) = []"
    by (rule writes_to_replicate)
qed

lemma main_loop_body_bus:
  assumes "main_loop_body fuel t sig s = Some s1"
  shows "bus s1 = loop_body_bus t (bus s)"
  using assms
  by (auto simp: main_loop_body_def Let_def split_def op_defs loop_body_bus_def
      split: option.splits dest!: msleep_frame)

lemma main_loop_bus:
  "main_loop fuel t sig i s = Some s' \<Longrightarrow> i \<le> 10 \<Longrightarrow>
     bus s' = (loop_body_bus t ^^ nat (10 - i)) (bus s)"
proof (induction fuel t sig i s rule: main_loop.induct)
  case (1 fuel t sig i s)
  show ?case
  proof (cases "i < 10")
    case True
    with "1.prems" obtain s1 where body: "main_loop_body fuel t sig s = Some s1"
      and rest: "main_loop fuel t sig (i + 1) s1 = Some s'"
      by (subst (asm) main_loop.simps) (auto split: option.splits)
    have n: "nat (10 - i) = Suc (nat (10 - (i + 1)))"
      using True by simp
    from "1.IH" [OF True body rest] True
    have "bus s' = (loop_body_bus t ^^ nat (10 - (i + 1))) (bus s1)"
      by simp
    with main_loop_body_bus [OF body] show ?thesis
      by (simp add: n funpow_swap1)
  next
    case False
    with "1.prems" show ?thesis
      by (subst (asm) main_loop.simps) simp
  qed
qed

lemma loop_body_bus_register_file:
  "loop_body_bus register_file b = b(0x19 := 0x30)"
  "(loop_body_bus register_file ^^ 10) b = b(0x19 := 0x30)"
proof -
  show one: "loop_body_bus register_file b = b(0x19 := 0x30)" for b
    by (simp add: loop_body_bus_def register_file_def reg_defs)
  have "(loop_body_bus register_file ^^ Suc n) b = b(0x19 := 0x30)" for n
  proof (induction n)
    case 0
    show ?case by (simp only: funpow.simps comp_apply id_apply one)
  next
    case (Suc n)
    have "(loop_body_bus register_file ^^ Suc (Suc n)) b =
        loop_body_bus register_file ((loop_body_bus register_file ^^ Suc n) b)"
      by (simp only: funpow.simps comp_apply)
    also have "\<dots> = loop_body_bus register_file (b(0x19 := 0x30))"
      by (simp only: Suc.IH)
    also have "\<dots> = b(0x19 := 0x30)"
      by (simp only: one fun_upd_upd)
    finally show ?case .
  qed
  from this [of 9] show "(loop_body_bus register_file ^^ 10) b = b(0x19 := 0x30)"
    by (simp add: eval_nat_numeral)
qed

lemma main_loop_body_pass:
  assumes "main_loop_body fuel t sig s = Some s1"
  shows "(let (status, b1) = bus_read t (bus s) 0x53 0x07;
              (int_config, b2) = bus_read t b1 0x53 0x19;
              (written, b3) = bus_write t b2 0x53 0x19 0x30;
              (data0, b4) = bus_read t b3 0x53 0x10;
              (data1, b5) = bus_read t b4 0x53 0x11;
              (data2, b6) = bus_read t b5 0x53 0x12
          in trace s1 =
               trace s @
               [BusRead 0x53 0x07 status, Stdout (''Status: '' @ hex (unat status) @ nl),
                BusRead 0x53 0x19 int_config,
                Stdout (''Config Register: '' @ hex (unat int_config) @ nl),
                BusWrite 0x53 0x19 0x30,
                BusRead 0x53 0x10 data0, BusRead 0x53 0x11 data1, BusRead 0x53 0x12 data2,
                DbgPrint (dec (unat data0) @ '' '' @ dec (unat data1) @ '' '' @
                          dec (unat data2) @ nl),
                Stdout (''raw data: '' @
                        dec (unat (push_bit 16 (ucast data2) OR push_bit 8 (ucast data1) OR
                                   ucast data0 :: uint32_t)) @ nl),
                Msleep 100] \<and>
             bus s1 = b6 \<and> b6 = loop_body_bus t (bus s))"
  using assms
  by (auto simp: main_loop_body_def Let_def split_def op_defs reg_defs loop_body_bus_def
      split: option.splits dest!: msleep_100 msleep_frame)

lemma main_disconnects:
  assumes "main fuel t sig prog args s = Some (0, s'')"
  shows "\<exists>s10 s11. main_loop fuel t sig 0 s10 = Some s11 \<and>
           trace s'' = trace s11 @ [Disconnect] \<and> bus s'' = bus_disconnect t (bus s11)"
  using assms
  apply (clarsimp simp: main_def Let_def split_def EXIT_FAILURE_def logExit_def
      split: if_splits option.splits)
  apply (rule exI, rule exI, rule conjI, assumption)
  apply simp
  done

lemma printer_tables:
  "map (\<lambda>m. print_mode (mode_val m)) [ALS_MODE, UVS_MODE] =
     [''mode: ALS'' @ nl, ''mode: UVS'' @ nl]"
  "map (\<lambda>g. print_gain (gain_val g)) [GAIN_1, GAIN_3, GAIN_6, GAIN_9, GAIN_18] =
     [''gain: 1'' @ nl, ''gain: 3'' @ nl, ''gain: 6'' @ nl, ''gain: 9'' @ nl,
      ''gain: 18'' @ nl]"
  "map (\<lambda>r. print_res_meas_rate (res_meas_rate_buffer (resolution_val r) (rate_val RATE_25)))
       [RES_20_BIT, RES_19_BIT, RES_18_BIT, RES_17_BIT, RES_16_BIT] =
     [[''resolution: 20 Bit'' @ nl, ''measurement rate: 25ms'' @ nl],
      [''resolution: 19 Bit'' @ nl, ''measurement rate: 25ms'' @ nl],
      [''resolution: 18 Bit'' @ nl, ''measurement rate: 25ms'' @ nl],
      [''resolution: 17 Bit'' @ nl, ''measurement rate: 25ms'' @ nl],
      [''resolution: 16 Bit'' @ nl, ''measurement rate: 25ms'' @ nl]]"
  "map (\<lambda>rt. print_res_meas_rate
                (res_meas_rate_buffer (resolution_val RES_20_BIT) (rate_val rt)))
       [RATE_25, RATE_50, RATE_100, RATE_200, RATE_500, RATE_1000, RATE_2000] =
     [[''resolution: 20 Bit'' @ nl, ''measurement rate: 25ms'' @ nl],
      [''resolution: 20 Bit'' @ nl, ''measurement rate: 50ms'' @ nl],
      [''resolution: 20 Bit'' @ nl, ''measurement rate: 100ms'' @ nl],
      [''resolution: 20 Bit'' @ nl, ''measurement rate: 200ms'' @ nl],
      [''resolution: 20 Bit'' @ nl, ''measurement rate: 500ms'' @ nl],
      [''resolution: 20 Bit'' @ nl, ''measurement rate: 1000ms'' @ nl],
      [''resolution: 20 Bit'' @ nl, ''measurement rate: 2000ms'' @ nl]]"
  by (simp_all add: print_mode_def print_gain_def print_res_meas_rate_def
      print_resolution_def print_measurement_rate_def res_meas_rate_buffer_def)

section \<open>Claims about the registers and the session\<close>

text \<open>
  Claim C2. The byte that \<^verbatim>\<open>set_res_meas_rate\<close> writes is the resolution's ordinal
  shifted left by four, or-ed with the rate's ordinal: its high nibble is the resolution
  and its low nibble the rate, and the one write to the register carries both. In a run
  of \<^verbatim>\<open>main\<close> the register is written once, with the byte of the pair 18 bit and
  100 ms, when the session gets past the identity check (exit status 0), and never
  otherwise.
\<close>

theorem res_meas_rate_written_together:
  "res_meas_rate_buffer (resolution_val r) (rate_val rt) =
     push_bit 4 (ucast (resolution_val r)) OR ucast (rate_val rt) \<and>
   drop_bit 4 (res_meas_rate_buffer (resolution_val r) (rate_val rt)) =
     ucast (resolution_val r) \<and>
   res_meas_rate_buffer (resolution_val r) (rate_val rt) AND 0x0f = ucast (rate_val rt) \<and>
   trace (snd (set_res_meas_rate t (resolution_val r) (rate_val rt) s)) =
     trace s @ [BusWrite DEVICE RES_MEAS_RATE_REG
                  (res_meas_rate_buffer (resolution_val r) (rate_val rt))] \<and>
   (main fuel t sig prog args s = Some (rc, s') \<longrightarrow>
      writes_to RES_MEAS_RATE_REG (map act (trace s')) =
        writes_to RES_MEAS_RATE_REG (map act (trace s)) @
        (if rc = 0
         then [res_meas_rate_buffer (resolution_val RES_18_BIT) (rate_val RATE_100)]
         else []))"
proof -
  have enc: "res_meas_rate_buffer (resolution_val r) (rate_val rt) =
     push_bit 4 (ucast (resolution_val r)) OR ucast (rate_val rt)"
    by (cases r; cases rt) (simp_all add: res_meas_rate_buffer_def)
  have hi: "drop_bit 4 (res_meas_rate_buffer (resolution_val r) (rate_val rt)) =
     ucast (resolution_val r)"
    by (cases r; cases rt) (simp_all add: res_meas_rate_buffer_def)
  have lo: "res_meas_rate_buffer (resolution_val r) (rate_val rt) AND 0x0f =
     ucast (rate_val rt)"
    by (cases r; cases rt) (simp_all add: res_meas_rate_buffer_def)
  have wr: "trace (snd (set_res_meas_rate t (resolution_val r) (rate_val rt) s)) =
     trace s @ [BusWrite DEVICE RES_MEAS_RATE_REG
                  (res_meas_rate_buffer (resolution_val r) (rate_val rt))]"
    by (simp add: set_res_meas_rate_def)
  have run: "writes_to RES_MEAS_RATE_REG (map act (trace s')) =
        writes_to RES_MEAS_RATE_REG (map act (trace s)) @
        (if rc = 0
         then [res_meas_rate_buffer (resolution_val RES_18_BIT) (rate_val RATE_100)]
         else [])"
    if m: "main fuel t sig prog args s = Some (rc, s')"
  proof (cases "rc = 0")
    case True
    with m main_success(1) [of fuel t sig prog args s s'] show ?thesis
      by (simp add: writes_to_main_actions)
  next
    case False
    with main_failure(2) [OF m] show ?thesis
      by (auto simp: reg_defs)
  qed
  from enc hi lo wr run show ?thesis
    by blast
qed

theorem res_meas_rate_written_together_witness:
  "\<exists>s'. main 1 register_file (\<lambda>k. None) ''i2c'' [''/dev/ttyUSB0'']
          (world0 (\<lambda>reg. if reg = 0x06 then 0xb2 else 0)) = Some (0, s') \<and>
        writes_to RES_MEAS_RATE_REG (map act (trace s')) = [0x22]"
proof -
  from main_runs obtain s' where
    run: "main 1 register_file (\<lambda>k. None) ''i2c'' [''/dev/ttyUSB0'']
          (world0 (\<lambda>reg. if reg = 0x06 then 0xb2 else 0)) = Some (0, s')"
    by blast
  from res_meas_rate_written_together
    [of RES_18_BIT RATE_100 register_file "world0 (\<lambda>reg. if reg = 0x06 then 0xb2 else 0)"
      1 "\<lambda>k. None" "''i2c''" "[''/dev/ttyUSB0'']" 0 s'] run
  have "writes_to RES_MEAS_RATE_REG (map act (trace s')) = [0x22]"
    by (simp add: world0_def)
  with run show ?thesis
    by blast
qed


text \<open>
  Claim C5. The claim asks that on an identity mismatch the observed value is reported, the
  process exits non-zero without a retry, and the transport is disconnected exactly once.
  With a device whose part-id register reads 0x00 the program reads the register once,
  reports the value through \<^verbatim>\<open>logExit\<close> and ends with \<open>EXIT_FAILURE\<close>; it never calls
  \<^verbatim>\<open>i2c_disconnect\<close>, which only the end of \<^verbatim>\<open>main\<close> (line 347) does. The lemma
  \<open>identity_mismatch\<close> shows the same trace for every transport and every part-id byte
  other than 0xB2.
\<close>

theorem identity_mismatch_run:
  "\<exists>s'. main fuel register_file sig ''i2c'' [''/dev/ttyUSB0''] (world0 (\<lambda>reg. 0x00)) =
          Some (EXIT_FAILURE, s') \<and>
        trace s' = [Connect ''/dev/ttyUSB0'', BusRead 0x53 0x06 0x00,
                    LogExit ''Wrong Part ID: 0''] \<and>
        count_list (trace s') Disconnect = 0"
  by (simp add: main_def Let_def split_def register_file_def world0_def reg_defs
      get_part_id_def logExit_def dec.simps digit_char_def)

text \<open>
  Claim C6. One pass of the loop body calls the transport six times, in this order: it
  reads the status register and prints it, reads the interrupt configuration register and
  prints it, writes 0x30 to that register, and reads the three data registers; it prints
  the measurement assembled from them and calls \<^verbatim>\<open>msleep (100)\<close>, which suspends the
  process for 100 ms. The state of the bus after the pass is the one these six calls
  leave. A run of the loop that returns has made exactly ten such passes, whatever the
  device answers, and \<^verbatim>\<open>main\<close> then disconnects: its last action is the
  disconnection, made in the state the loop left. On a device that stores what is
  written, the ten passes change the register 0x19 to 0x30 and nothing else. The loop and
  \<^verbatim>\<open>main\<close> return whenever, among every \<open>fuel\<close> consecutive \<^verbatim>\<open>nanosleep\<close> calls,
  one is not interrupted.
\<close>

theorem poll_phase:
  "(main_loop_body fuel t sig s = Some s1 \<longrightarrow>
      (let (status, b1) = bus_read t (bus s) 0x53 0x07;
           (int_config, b2) = bus_read t b1 0x53 0x19;
           (written, b3) = bus_write t b2 0x53 0x19 0x30;
           (data0, b4) = bus_read t b3 0x53 0x10;
           (data1, b5) = bus_read t b4 0x53 0x11;
           (data2, b6) = bus_read t b5 0x53 0x12
       in trace s1 =
            trace s @
            [BusRead 0x53 0x07 status, Stdout (''Status: '' @ hex (unat status) @ nl),
             BusRead 0x53 0x19 int_config,
             Stdout (''Config Register: '' @ hex (unat int_config) @ nl),
             BusWrite 0x53 0x19 0x30,
             BusRead 0x53 0x10 data0, BusRead 0x53 0x11 data1, BusRead 0x53 0x12 data2,
             DbgPrint (dec (unat data0) @ '' '' @ dec (unat data1) @ '' '' @
                       dec (unat data2) @ nl),
             Stdout (''raw data: '' @
                     dec (unat (push_bit 16 (ucast data2) OR push_bit 8 (ucast data1) OR
                                ucast data0 :: uint32_t)) @ nl),
             Msleep 100] \<and>
          bus s1 = b6 \<and> b6 = loop_body_bus t (bus s)) \<and>
      slept s1 = slept s + 100000000) \<and>
   (main_loop fuel t sig 0 s = Some s' \<longrightarrow>
      map act (trace s') =
        map act (trace s) @
        concat (replicate 10
          [ARead 0x53 0x07, APrint, ARead 0x53 0x19, APrint, AWrite 0x53 0x19 0x30,
           ARead 0x53 0x10, ARead 0x53 0x11, ARead 0x53 0x12, ADebug, APrint,
           ASleep 100]) \<and>
      slept s' = slept s + 10 * 100000000 \<and>
      bus s' = (loop_body_bus t ^^ 10) (bus s)) \<and>
   (main fuel t sig prog args s = Some (0, s'') \<longrightarrow>
      map act (trace s'') =
        map act (trace s) @ startup_actions @
        concat (replicate 10
          [ARead 0x53 0x07, APrint, ARead 0x53 0x19, APrint, AWrite 0x53 0x19 0x30,
           ARead 0x53 0x10, ARead 0x53 0x11, ARead 0x53 0x12, ADebug, APrint,
           ASleep 100]) @
        [ADisconnect] \<and>
      (\<exists>s10 s11. main_loop fuel t sig 0 s10 = Some s11 \<and>
         trace s'' = trace s11 @ [Disconnect] \<and>
         bus s'' = bus_disconnect t (bus s11))) \<and>
   (loop_body_bus register_file ^^ 10) b = b(0x19 := 0x30) \<and>
   ((\<forall>k. \<exists>j<fuel. sig (k + j) = None) \<longrightarrow>
      (\<exists>s1. main_loop_body fuel t sig s = Some s1) \<and>
      (\<exists>s'. main_loop fuel t sig 0 s = Some s') \<and>
      (fst (bus_connect t (bus s) path) \<and>
       fst (bus_read t (snd (bus_connect t (bus s) path)) 0x53 0x06) = 0xb2 \<longrightarrow>
         (\<exists>s''. main fuel t sig prog (path # rest) s = Some (0, s''))))"
proof -
  have acts: "loop_body_actions =
      [ARead 0x53 0x07, APrint, ARead 0x53 0x19, APrint, AWrite 0x53 0x19 0x30,
           ARead 0x53 0x10, ARead 0x53 0x11, ARead 0x53 0x12, ADebug, APrint,
           ASleep 100]"
    by (simp add: loop_body_actions_def reg_defs)
  have body: "(let (status, b1) = bus_read t (bus s) 0x53 0x07;
           (int_config, b2) = bus_read t b1 0x53 0x19;
           (written, b3) = bus_write t b2 0x53 0x19 0x30;
           (data0, b4) = bus_read t b3 0x53 0x10;
           (data1, b5) = bus_read t b4 0x53 0x11;
           (data2, b6) = bus_read t b5 0x53 0x12
       in trace s1 =
            trace s @
            [BusRead 0x53 0x07 status, Stdout (''Status: '' @ hex (unat status) @ nl),
             BusRead 0x53 0x19 int_config,
             Stdout (''Config Register: '' @ hex (unat int_config) @ nl),
             BusWrite 0x53 0x19 0x30,
             BusRead 0x53 0x10 data0, BusRead 0x53 0x11 data1, BusRead 0x53 0x12 data2,
             DbgPrint (dec (unat data0) @ '' '' @ dec (unat data1) @ '' '' @
                       dec (unat data2) @ nl),
             Stdout (''raw data: '' @
                     dec (unat (push_bit 16 (ucast data2) OR push_bit 8 (ucast data1) OR
                                ucast data0 :: uint32_t)) @ nl),
             Msleep 100] \<and>
          bus s1 = b6 \<and> b6 = loop_body_bus t (bus s)) \<and>
      slept s1 = slept s + 100000000"
    if "main_loop_body fuel t sig s = Some s1"
    using main_loop_body_pass [OF that] main_loop_body_effect(2) [OF that] by blast
  have loop: "map act (trace s') =
        map act (trace s) @ concat (replicate 10 loop_body_actions) \<and>
      slept s' = slept s + 10 * 100000000 \<and>
      bus s' = (loop_body_bus t ^^ 10) (bus s)"
    if "main_loop fuel t sig 0 s = Some s'"
    using main_loop_effect [OF that] main_loop_bus [OF that] by simp
  have run: "map act (trace s'') =
        map act (trace s) @ startup_actions @ concat (replicate 10 loop_body_actions) @
        [ADisconnect] \<and>
      (\<exists>s10 s11. main_loop fuel t sig 0 s10 = Some s11 \<and>
         trace s'' = trace s11 @ [Disconnect] \<and>
         bus s'' = bus_disconnect t (bus s11))"
    if "main fuel t sig prog args s = Some (0, s'')"
    using main_success(1) [OF that] main_disconnects [OF that] by blast
  have returns: "(\<exists>s1. main_loop_body fuel t sig s = Some s1) \<and>
      (\<exists>s'. main_loop fuel t sig 0 s = Some s') \<and>
      (fst (bus_connect t (bus s) path) \<and>
       fst (bus_read t (snd (bus_connect t (bus s) path)) 0x53 0x06) = 0xb2 \<longrightarrow>
         (\<exists>s''. main fuel t sig prog (path # rest) s = Some (0, s'')))"
    if quiet: "\<forall>k. \<exists>j<fuel. sig (k + j) = None"
  proof -
    from quiet have q: "\<exists>j<fuel. sig (k + j) = None" for k
      by blast
    have "\<exists>s1. main_loop_body fuel t sig s = Some s1"
      using q by (rule main_loop_body_total)
    moreover have "\<exists>s'. main_loop fuel t sig 0 s = Some s'"
      using q by (rule main_loop_total)
    moreover have "\<exists>s''. main fuel t sig prog (path # rest) s = Some (0, s'')"
      if "fst (bus_connect t (bus s) path)"
        and "fst (bus_read t (snd (bus_connect t (bus s) path)) 0x53 0x06) = 0xb2"
      using that q by (intro main_identified) (simp_all add: reg_defs)
    ultimately show ?thesis
      by blast
  qed
  from body loop run loop_body_bus_register_file(2) [of b] returns show ?thesis
    unfolding acts by blast
qed

theorem poll_phase_witness:
  "(\<forall>k. \<exists>j<1. (\<lambda>k :: nat. None :: nat option) (k + j) = None) \<and>
   fst (bus_connect register_file
          (bus (world0 (\<lambda>reg. if reg = 0x06 then 0xb2 else 0))) ''/dev/ttyUSB0'') \<and>
   fst (bus_read register_file
          (snd (bus_connect register_file
                  (bus (world0 (\<lambda>reg. if reg = 0x06 then 0xb2 else 0))) ''/dev/ttyUSB0''))
          0x53 0x06) = 0xb2 \<and>
   (\<exists>s1 s' s''.
     main_loop_body 1 register_file (\<lambda>k. None)
       (world0 (\<lambda>reg. if reg = 0x06 then 0xb2 else 0)) = Some s1 \<and>
     main_loop 1 register_file (\<lambda>k. None) 0
       (world0 (\<lambda>reg. if reg = 0x06 then 0xb2 else 0)) = Some s' \<and>
     main 1 register_file (\<lambda>k. None) ''i2c'' [''/dev/ttyUSB0'']
       (world0 (\<lambda>reg. if reg = 0x06 then 0xb2 else 0)) = Some (0, s'') \<and>
     slept s1 = 100000000 \<and> slept s' = 1000000000 \<and>
     bus s1 = (\<lambda>reg. if reg = 0x06 then 0xb2 else 0)(0x19 := 0x30) \<and>
     bus s' = (\<lambda>reg. if reg = 0x06 then 0xb2 else 0)(0x19 := 0x30) \<and>
     map act (trace s') =
       concat (replicate 10
         [ARead 0x53 0x07, APrint, ARead 0x53 0x19, APrint, AWrite 0x53 0x19 0x30,
           ARead 0x53 0x10, ARead 0x53 0x11, ARead 0x53 0x12, ADebug, APrint,
           ASleep 100]) \<and>
     map act (trace s'') =
       startup_actions @
       concat (replicate 10
         [ARead 0x53 0x07, APrint, ARead 0x53 0x19, APrint, AWrite 0x53 0x19 0x30,
           ARead 0x53 0x10, ARead 0x53 0x11, ARead 0x53 0x12, ADebug, APrint,
           ASleep 100]) @
       [ADisconnect])"
proof -
  let ?w = "world0 (\<lambda>reg. if reg = 0x06 then 0xb2 else 0) :: (uint8_t \<Rightarrow> uint8_t) world"
  have quiet: "\<forall>k. \<exists>j<1. (\<lambda>k :: nat. None :: nat option) (k + j) = None"
    by (intro allI exI [of _ 0]) simp
  have connected: "fst (bus_connect register_file (bus ?w) ''/dev/ttyUSB0'')"
    by (simp add: register_file_def)
  have part_id: "fst (bus_read register_file
      (snd (bus_connect register_file (bus ?w) ''/dev/ttyUSB0'')) 0x53 0x06) = 0xb2"
    by (simp add: register_file_def world0_def)
  note inst = poll_phase [where fuel = 1 and t = register_file and sig = "\<lambda>k. None"
      and s = ?w and prog = "''i2c''" and path = "''/dev/ttyUSB0''" and rest = "[]"
      and args = "[''/dev/ttyUSB0'']"]
  from inst quiet connected part_id
  obtain s1 s' s'' where
    body: "main_loop_body 1 register_file (\<lambda>k. None) ?w = Some s1" and
    loop: "main_loop 1 register_file (\<lambda>k. None) 0 ?w = Some s'" and
    run: "main 1 register_file (\<lambda>k. None) ''i2c'' [''/dev/ttyUSB0''] ?w = Some (0, s'')"
    by blast
  have one: "loop_body_bus register_file (bus ?w) = (bus ?w)(0x19 := 0x30)"
    by (rule loop_body_bus_register_file(1))
  from poll_phase [where fuel = 1 and t = register_file and sig = "\<lambda>k. None"
      and s = ?w and prog = "''i2c''" and path = "''/dev/ttyUSB0''" and rest = "[]"
      and args = "[''/dev/ttyUSB0'']" and ?s1.0 = s1 and s' = s' and s'' = s''
      and b = "bus ?w"] body loop run one
  have "slept s1 = 100000000 \<and> slept s' = 1000000000 \<and>
     bus s1 = (\<lambda>reg. if reg = 0x06 then 0xb2 else 0)(0x19 := 0x30) \<and>
     bus s' = (\<lambda>reg. if reg = 0x06 then 0xb2 else 0)(0x19 := 0x30) \<and>
     map act (trace s') =
       concat (replicate 10
         [ARead 0x53 0x07, APrint, ARead 0x53 0x19, APrint, AWrite 0x53 0x19 0x30,
           ARead 0x53 0x10, ARead 0x53 0x11, ARead 0x53 0x12, ADebug, APrint,
           ASleep 100]) \<and>
     map act (trace s'') =
       startup_actions @
       concat (replicate 10
         [ARead 0x53 0x07, APrint, ARead 0x53 0x19, APrint, AWrite 0x53 0x19 0x30,
           ARead 0x53 0x10, ARead 0x53 0x11, ARead 0x53 0x12, ADebug, APrint,
           ASleep 100]) @
       [ADisconnect]"
    by (simp add: world0_def Let_def split_def)
  with quiet connected part_id body loop run show ?thesis
    by blast
qed

text \<open>
  Claim C8. The register addresses and the device address have the values of the register
  map, and each getter and setter uses the address of its register: the mode bytes 0x02
  and 0x0A go to register 0x00, the gain ordinals 0 to 4 to register 0x05, the resolution
  and rate byte to register 0x04; the part id is read from 0x06, the status from 0x07,
  the interrupt configuration is at 0x19, and the data bytes are read from 0x10, 0x11 and
  0x12, the byte at 0x10 being the least significant. After a successful connection the
  exit status is 0 exactly when the part-id byte read is 0xB2.
\<close>

theorem register_map:
  "DEVICE = 0x53 \<and> MAIN_CTRL_REG = 0x00 \<and> RES_MEAS_RATE_REG = 0x04 \<and> GAIN_REG = 0x05 \<and>
   PART_ID_REG = 0x06 \<and> MAIN_STATUS_REG = 0x07 \<and> UV_DATA_REG = 0x10 \<and>
   INT_CONF_REG = 0x19 \<and>
   trace (snd (set_mode t (mode_val ALS_MODE) s)) = trace s @ [BusWrite 0x53 0x00 0x02] \<and>
   trace (snd (set_mode t (mode_val UVS_MODE) s)) = trace s @ [BusWrite 0x53 0x00 0x0A] \<and>
   trace (snd (get_mode t s)) =
     trace s @ [BusRead 0x53 0x00 (ucast (fst (get_mode t s)))] \<and>
   map (\<lambda>g. trace (snd (set_gain t (gain_val g) s)))
       [GAIN_1, GAIN_3, GAIN_6, GAIN_9, GAIN_18] =
     map (\<lambda>v. trace s @ [BusWrite 0x53 0x05 v]) [0, 1, 2, 3, 4] \<and>
   trace (snd (get_gain t s)) =
     trace s @ [BusRead 0x53 0x05 (ucast (fst (get_gain t s)))] \<and>
   trace (snd (set_res_meas_rate t resolution rate s)) =
     trace s @ [BusWrite 0x53 0x04 (res_meas_rate_buffer resolution rate)] \<and>
   trace (snd (get_res_meas_rate t s)) =
     trace s @ [BusRead 0x53 0x04 (fst (get_res_meas_rate t s))] \<and>
   trace (snd (get_part_id t s)) = trace s @ [BusRead 0x53 0x06 (fst (get_part_id t s))] \<and>
   trace (snd (get_status t s)) = trace s @ [BusRead 0x53 0x07 (fst (get_status t s))] \<and>
   trace (snd (get_int_conf_reg t s)) =
     trace s @ [BusRead 0x53 0x19 (fst (get_int_conf_reg t s))] \<and>
   trace (snd (set_int_conf_reg t v s)) = trace s @ [BusWrite 0x53 0x19 v] \<and>
   (\<exists>text. trace (snd (read_raw_data t s)) =
      trace s @
      [BusRead 0x53 0x10 (ucast (fst (read_raw_data t s))),
       BusRead 0x53 0x11 (ucast (drop_bit 8 (fst (read_raw_data t s)))),
       BusRead 0x53 0x12 (ucast (drop_bit 16 (fst (read_raw_data t s)))),
       DbgPrint text]) \<and>
   (fst (bus_connect t (bus s) path) \<and>
    main fuel t sig prog (path # rest) s = Some (rc, s') \<longrightarrow>
      (rc = 0) = (fst (get_part_id t (snd (i2c_connect t path s))) = 0xB2))"
proof -
  have id: "(rc = 0) = (fst (get_part_id t (snd (i2c_connect t path s))) = 0xB2)"
    if "fst (bus_connect t (bus s) path)"
      and "main fuel t sig prog (path # rest) s = Some (rc, s')"
    using that
    by (auto simp: main_def Let_def split_def logExit_def EXIT_FAILURE_def
        split: if_splits option.splits)
  have raw: "\<exists>text. trace (snd (read_raw_data t s)) =
      trace s @
      [BusRead 0x53 0x10 (ucast (fst (read_raw_data t s))),
       BusRead 0x53 0x11 (ucast (drop_bit 8 (fst (read_raw_data t s)))),
       BusRead 0x53 0x12 (ucast (drop_bit 16 (fst (read_raw_data t s)))),
       DbgPrint text]"
    by (simp add: read_raw_data_def Let_def split_def reg_defs raw_data_bytes)
      (intro conjI; rule bit_word_eqI; auto simp: bit_simps dest: bit_imp_le_length)
  have gains: "map (\<lambda>g. trace (snd (set_gain t (gain_val g) s)))
       [GAIN_1, GAIN_3, GAIN_6, GAIN_9, GAIN_18] =
     map (\<lambda>v. trace s @ [BusWrite 0x53 0x05 v]) [0, 1, 2, 3, 4]"
    by (simp add: set_gain_def gain_buffer_def reg_defs)
  have rest: "DEVICE = 0x53" "MAIN_CTRL_REG = 0x00" "RES_MEAS_RATE_REG = 0x04"
    "GAIN_REG = 0x05" "PART_ID_REG = 0x06" "MAIN_STATUS_REG = 0x07" "UV_DATA_REG = 0x10"
    "INT_CONF_REG = 0x19"
    "trace (snd (set_mode t (mode_val ALS_MODE) s)) = trace s @ [BusWrite 0x53 0x00 0x02]"
    "trace (snd (set_mode t (mode_val UVS_MODE) s)) = trace s @ [BusWrite 0x53 0x00 0x0A]"
    "trace (snd (get_mode t s)) =
       trace s @ [BusRead 0x53 0x00 (ucast (fst (get_mode t s)))]"
    "trace (snd (get_gain t s)) =
       trace s @ [BusRead 0x53 0x05 (ucast (fst (get_gain t s)))]"
    "trace (snd (set_res_meas_rate t resolution rate s)) =
       trace s @ [BusWrite 0x53 0x04 (res_meas_rate_buffer resolution rate)]"
    "trace (snd (get_res_meas_rate t s)) =
       trace s @ [BusRead 0x53 0x04 (fst (get_res_meas_rate t s))]"
    "trace (snd (get_part_id t s)) = trace s @ [BusRead 0x53 0x06 (fst (get_part_id t s))]"
    "trace (snd (get_status t s)) = trace s @ [BusRead 0x53 0x07 (fst (get_status t s))]"
    "trace (snd (get_int_conf_reg t s)) =
       trace s @ [BusRead 0x53 0x19 (fst (get_int_conf_reg t s))]"
    "trace (snd (set_int_conf_reg t v s)) = trace s @ [BusWrite 0x53 0x19 v]"
    by (simp_all add: op_defs reg_defs mode_buffer_def Let_def split_def ucast_byte)
  from rest gains raw id show ?thesis
    by blast
qed

theorem register_map_witness:
  "\<exists>rc s'.
     fst (bus_connect register_file
            (bus (world0 (\<lambda>reg. if reg = 0x06 then 0xb2 else 0))) ''/dev/ttyUSB0'') \<and>
     main 1 register_file (\<lambda>k. None) ''i2c'' [''/dev/ttyUSB0'']
       (world0 (\<lambda>reg. if reg = 0x06 then 0xb2 else 0)) = Some (rc, s') \<and>
     (rc = 0) =
       (fst (get_part_id register_file
          (snd (i2c_connect register_file ''/dev/ttyUSB0''
             (world0 (\<lambda>reg. if reg = 0x06 then 0xb2 else 0))))) = 0xB2)"
proof -
  let ?w = "world0 (\<lambda>reg. if reg = 0x06 then 0xb2 else 0) :: (uint8_t \<Rightarrow> uint8_t) world"
  have connected: "fst (bus_connect register_file (bus ?w) ''/dev/ttyUSB0'')"
    by (simp add: register_file_def)
  from main_runs obtain s' where
    run: "main 1 register_file (\<lambda>k. None) ''i2c'' [''/dev/ttyUSB0''] ?w = Some (0, s')"
    by blast
  from register_map [where t = register_file and s = ?w and path = "''/dev/ttyUSB0''"
      and fuel = 1 and sig = "\<lambda>k. None" and prog = "''i2c''" and rest = "[]" and rc = 0
      and s' = s'] connected run
  have "(0 = (0::int)) =
       (fst (get_part_id register_file
          (snd (i2c_connect register_file ''/dev/ttyUSB0'' ?w))) = 0xB2)"
    by blast
  with connected run show ?thesis
    by blast
qed

text \<open>
  Claim C9. Each settings block of \<^verbatim>\<open>main\<close> reads the register, prints what the
  printer decodes, writes the target value, reads the register again and prints what the
  printer decodes; the bytes in the trace are those the transport delivered and the state
  of the bus is the one the three calls leave. The printers print each enumerator as its
  name. On a device that answers a read of a register with the byte last written to it,
  the value read back is the one written, whatever the register held before: the mode
  read back is 0x0A and is printed as UVS, the gain read back is 4 and is printed as 18,
  and the resolution and rate byte read back is 0x22 and is printed as 18 Bit and 100ms.
\<close>

theorem configure_steps:
  "(let (m0, b1) = bus_read t (bus s) 0x53 0x00;
        (written, b2) = bus_write t b1 0x53 0x00 0x0A;
        (m1, b3) = bus_read t b2 0x53 0x00
    in trace (snd (main_mode t s)) =
         trace s @
         [BusRead 0x53 0x00 m0, Stdout (''mode raw: 0x'' @ hex (unat m0) @ nl),
          Stdout (print_mode (ucast m0)), Stdout (''Setting mode to UVS_MODE.'' @ nl),
          BusWrite 0x53 0x00 0x0A, BusRead 0x53 0x00 m1, Stdout (print_mode (ucast m1))] \<and>
       fst (main_mode t s) = ucast m1 \<and> bus (snd (main_mode t s)) = b3) \<and>
   (let (g0, b1) = bus_read t (bus s) 0x53 0x05;
        (written, b2) = bus_write t b1 0x53 0x05 0x04;
        (g1, b3) = bus_read t b2 0x53 0x05
    in trace (snd (main_gain t s)) =
         trace s @
         [BusRead 0x53 0x05 g0,
          Stdout (''gain raw: '' @ dec (unat (ucast g0 :: uint32_t)) @ nl),
          Stdout (print_gain (ucast g0)), Stdout (''Setting gain to 18.'' @ nl),
          BusWrite 0x53 0x05 0x04, BusRead 0x53 0x05 g1, Stdout (print_gain (ucast g1))] \<and>
       fst (main_gain t s) = ucast g1 \<and> bus (snd (main_gain t s)) = b3) \<and>
   (let (r0, b1) = bus_read t (bus s) 0x53 0x04;
        (written, b2) = bus_write t b1 0x53 0x04 0x22;
        (r1, b3) = bus_read t b2 0x53 0x04
    in trace (snd (main_res_meas_rate t s)) =
         trace s @ [BusRead 0x53 0x04 r0] @ map Stdout (print_res_meas_rate r0) @
         [Stdout (''Setting resolution to 18 bit and rate to 100ms.'' @ nl),
          BusWrite 0x53 0x04 0x22, BusRead 0x53 0x04 r1] @
         map Stdout (print_res_meas_rate r1) \<and>
       fst (main_res_meas_rate t s) = r1 \<and> bus (snd (main_res_meas_rate t s)) = b3) \<and>
   map (\<lambda>m. print_mode (mode_val m)) [ALS_MODE, UVS_MODE] =
     [''mode: ALS'' @ nl, ''mode: UVS'' @ nl] \<and>
   map (\<lambda>g. print_gain (gain_val g)) [GAIN_1, GAIN_3, GAIN_6, GAIN_9, GAIN_18] =
     [''gain: 1'' @ nl, ''gain: 3'' @ nl, ''gain: 6'' @ nl, ''gain: 9'' @ nl,
      ''gain: 18'' @ nl] \<and>
   map (\<lambda>r. print_res_meas_rate (res_meas_rate_buffer (resolution_val r) (rate_val RATE_25)))
       [RES_20_BIT, RES_19_BIT, RES_18_BIT, RES_17_BIT, RES_16_BIT] =
     [[''resolution: 20 Bit'' @ nl, ''measurement rate: 25ms'' @ nl],
      [''resolution: 19 Bit'' @ nl, ''measurement rate: 25ms'' @ nl],
      [''resolution: 18 Bit'' @ nl, ''measurement rate: 25ms'' @ nl],
      [''resolution: 17 Bit'' @ nl, ''measurement rate: 25ms'' @ nl],
      [''resolution: 16 Bit'' @ nl, ''measurement rate: 25ms'' @ nl]] \<and>
   map (\<lambda>rt. print_res_meas_rate
                (res_meas_rate_buffer (resolution_val RES_20_BIT) (rate_val rt)))
       [RATE_25, RATE_50, RATE_100, RATE_200, RATE_500, RATE_1000, RATE_2000] =
     [[''resolution: 20 Bit'' @ nl, ''measurement rate: 25ms'' @ nl],
      [''resolution: 20 Bit'' @ nl, ''measurement rate: 50ms'' @ nl],
      [''resolution: 20 Bit'' @ nl, ''measurement rate: 100ms'' @ nl],
      [''resolution: 20 Bit'' @ nl, ''measurement rate: 200ms'' @ nl],
      [''resolution: 20 Bit'' @ nl, ''measurement rate: 500ms'' @ nl],
      [''resolution: 20 Bit'' @ nl, ''measurement rate: 1000ms'' @ nl],
      [''resolution: 20 Bit'' @ nl, ''measurement rate: 2000ms'' @ nl]] \<and>
   ((\<forall>b dev reg v. fst (bus_read t (snd (bus_write t b dev reg v)) dev reg) = v) \<longrightarrow>
      fst (main_mode t s) = 0x0A \<and>
      decode_mode (fst (main_mode t s)) = Known UVS_MODE \<and>
      (\<exists>pre. trace (snd (main_mode t s)) =
         pre @ [BusWrite 0x53 0x00 0x0A, BusRead 0x53 0x00 0x0A,
                Stdout (''mode: UVS'' @ nl)]) \<and>
      fst (main_gain t s) = 0x04 \<and>
      decode_gain (fst (main_gain t s)) = Known GAIN_18 \<and>
      (\<exists>pre. trace (snd (main_gain t s)) =
         pre @ [BusWrite 0x53 0x05 0x04, BusRead 0x53 0x05 0x04,
                Stdout (''gain: 18'' @ nl)]) \<and>
      fst (main_res_meas_rate t s) = 0x22 \<and>
      decode_res_rate (fst (main_res_meas_rate t s)) = (Known RES_18_BIT, Known RATE_100) \<and>
      (\<exists>pre. trace (snd (main_res_meas_rate t s)) =
         pre @ [BusWrite 0x53 0x04 0x22, BusRead 0x53 0x04 0x22,
                Stdout (''resolution: 18 Bit'' @ nl),
                Stdout (''measurement rate: 100ms'' @ nl)]))"
proof -
  have mode: "(let (m0, b1) = bus_read t (bus s) 0x53 0x00;
        (written, b2) = bus_write t b1 0x53 0x00 0x0A;
        (m1, b3) = bus_read t b2 0x53 0x00
    in trace (snd (main_mode t s)) =
         trace s @
         [BusRead 0x53 0x00 m0, Stdout (''mode raw: 0x'' @ hex (unat m0) @ nl),
          Stdout (print_mode (ucast m0)), Stdout (''Setting mode to UVS_MODE.'' @ nl),
          BusWrite 0x53 0x00 0x0A, BusRead 0x53 0x00 m1, Stdout (print_mode (ucast m1))] \<and>
       fst (main_mode t s) = ucast m1 \<and> bus (snd (main_mode t s)) = b3)"
    by (simp add: main_mode_def Let_def split_def op_defs reg_defs ucast_byte)
  have gain: "(let (g0, b1) = bus_read t (bus s) 0x53 0x05;
        (written, b2) = bus_write t b1 0x53 0x05 0x04;
        (g1, b3) = bus_read t b2 0x53 0x05
    in trace (snd (main_gain t s)) =
         trace s @
         [BusRead 0x53 0x05 g0,
          Stdout (''gain raw: '' @ dec (unat (ucast g0 :: uint32_t)) @ nl),
          Stdout (print_gain (ucast g0)), Stdout (''Setting gain to 18.'' @ nl),
          BusWrite 0x53 0x05 0x04, BusRead 0x53 0x05 g1, Stdout (print_gain (ucast g1))] \<and>
       fst (main_gain t s) = ucast g1 \<and> bus (snd (main_gain t s)) = b3)"
    by (simp add: main_gain_def Let_def split_def op_defs reg_defs)
  have res: "(let (r0, b1) = bus_read t (bus s) 0x53 0x04;
        (written, b2) = bus_write t b1 0x53 0x04 0x22;
        (r1, b3) = bus_read t b2 0x53 0x04
    in trace (snd (main_res_meas_rate t s)) =
         trace s @ [BusRead 0x53 0x04 r0] @ map Stdout (print_res_meas_rate r0) @
         [Stdout (''Setting resolution to 18 bit and rate to 100ms.'' @ nl),
          BusWrite 0x53 0x04 0x22, BusRead 0x53 0x04 r1] @
         map Stdout (print_res_meas_rate r1) \<and>
       fst (main_res_meas_rate t s) = r1 \<and> bus (snd (main_res_meas_rate t s)) = b3)"
    by (simp add: main_res_meas_rate_def Let_def split_def op_defs reg_defs)
  have stored: "fst (main_mode t s) = 0x0A \<and>
      decode_mode (fst (main_mode t s)) = Known UVS_MODE \<and>
      (\<exists>pre. trace (snd (main_mode t s)) =
         pre @ [BusWrite 0x53 0x00 0x0A, BusRead 0x53 0x00 0x0A,
                Stdout (''mode: UVS'' @ nl)]) \<and>
      fst (main_gain t s) = 0x04 \<and>
      decode_gain (fst (main_gain t s)) = Known GAIN_18 \<and>
      (\<exists>pre. trace (snd (main_gain t s)) =
         pre @ [BusWrite 0x53 0x05 0x04, BusRead 0x53 0x05 0x04,
                Stdout (''gain: 18'' @ nl)]) \<and>
      fst (main_res_meas_rate t s) = 0x22 \<and>
      decode_res_rate (fst (main_res_meas_rate t s)) = (Known RES_18_BIT, Known RATE_100) \<and>
      (\<exists>pre. trace (snd (main_res_meas_rate t s)) =
         pre @ [BusWrite 0x53 0x04 0x22, BusRead 0x53 0x04 0x22,
                Stdout (''resolution: 18 Bit'' @ nl),
                Stdout (''measurement rate: 100ms'' @ nl)])"
    if st: "\<forall>b dev reg v. fst (bus_read t (snd (bus_write t b dev reg v)) dev reg) = v"
  proof -
    have m: "fst (main_mode t s) = 0x0A"
      using st by (simp add: main_mode_def Let_def split_def op_defs)
    have g: "fst (main_gain t s) = 0x04"
      using st by (simp add: main_gain_def Let_def split_def op_defs)
    have r: "fst (main_res_meas_rate t s) = 0x22"
      using st by (simp add: main_res_meas_rate_def Let_def split_def op_defs)
    have dm: "decode_mode (fst (main_mode t s)) = Known UVS_MODE"
      by (simp add: m decode_mode_def)
    have dg: "decode_gain (fst (main_gain t s)) = Known GAIN_18"
      by (simp add: g decode_gain_def)
    have dr: "decode_res_rate (fst (main_res_meas_rate t s)) =
        (Known RES_18_BIT, Known RATE_100)"
      by (simp add: r decode_res_rate_def decode_resolution_def decode_rate_def)
    have tm: "\<exists>pre. trace (snd (main_mode t s)) =
         pre @ [BusWrite 0x53 0x00 0x0A, BusRead 0x53 0x00 0x0A,
                Stdout (''mode: UVS'' @ nl)]"
      using st
      by (intro exI [of _ "trace s @ [BusRead 0x53 0x00 (fst (bus_read t (bus s) 0x53 0x00)),
            Stdout (''mode raw: 0x'' @ hex (unat (fst (bus_read t (bus s) 0x53 0x00))) @ nl),
            Stdout (print_mode (ucast (fst (bus_read t (bus s) 0x53 0x00)))),
            Stdout (''Setting mode to UVS_MODE.'' @ nl)]"])
        (simp add: main_mode_def Let_def split_def op_defs reg_defs ucast_byte
          print_mode_def)
    have tg: "\<exists>pre. trace (snd (main_gain t s)) =
         pre @ [BusWrite 0x53 0x05 0x04, BusRead 0x53 0x05 0x04,
                Stdout (''gain: 18'' @ nl)]"
      using st
      by (intro exI [of _ "trace s @ [BusRead 0x53 0x05 (fst (bus_read t (bus s) 0x53 0x05)),
            Stdout (''gain raw: '' @
              dec (unat (ucast (fst (bus_read t (bus s) 0x53 0x05)) :: uint32_t)) @ nl),
            Stdout (print_gain (ucast (fst (bus_read t (bus s) 0x53 0x05)))),
            Stdout (''Setting gain to 18.'' @ nl)]"])
        (simp add: main_gain_def Let_def split_def op_defs reg_defs print_gain_def)
    have tr: "\<exists>pre. trace (snd (main_res_meas_rate t s)) =
         pre @ [BusWrite 0x53 0x04 0x22, BusRead 0x53 0x04 0x22,
                Stdout (''resolution: 18 Bit'' @ nl),
                Stdout (''measurement rate: 100ms'' @ nl)]"
      using st
      by (intro exI [of _ "trace s @ [BusRead 0x53 0x04 (fst (bus_read t (bus s) 0x53 0x04))] @
            map Stdout (print_res_meas_rate (fst (bus_read t (bus s) 0x53 0x04))) @
            [Stdout (''Setting resolution to 18 bit and rate to 100ms.'' @ nl)]"])
        (simp add: main_res_meas_rate_def Let_def split_def op_defs reg_defs
          print_res_meas_rate_def print_resolution_def print_measurement_rate_def)
    show ?thesis
      by (intro conjI m g r dm dg dr tm tg tr)
  qed
  from stored
  have stored': "(\<forall>b dev reg v. fst (bus_read t (snd (bus_write t b dev reg v)) dev reg) = v) \<longrightarrow>
      fst (main_mode t s) = 0x0A \<and>
      decode_mode (fst (main_mode t s)) = Known UVS_MODE \<and>
      (\<exists>pre. trace (snd (main_mode t s)) =
         pre @ [BusWrite 0x53 0x00 0x0A, BusRead 0x53 0x00 0x0A,
                Stdout (''mode: UVS'' @ nl)]) \<and>
      fst (main_gain t s) = 0x04 \<and>
      decode_gain (fst (main_gain t s)) = Known GAIN_18 \<and>
      (\<exists>pre. trace (snd (main_gain t s)) =
         pre @ [BusWrite 0x53 0x05 0x04, BusRead 0x53 0x05 0x04,
                Stdout (''gain: 18'' @ nl)]) \<and>
      fst (main_res_meas_rate t s) = 0x22 \<and>
      decode_res_rate (fst (main_res_meas_rate t s)) = (Known RES_18_BIT, Known RATE_100) \<and>
      (\<exists>pre. trace (snd (main_res_meas_rate t s)) =
         pre @ [BusWrite 0x53 0x04 0x22, BusRead 0x53 0x04 0x22,
                Stdout (''resolution: 18 Bit'' @ nl),
                Stdout (''measurement rate: 100ms'' @ nl)])"
    by (rule impI)
  show ?thesis
    by (intro conjI mode gain res printer_tables stored')
qed

text \<open>
  A register file that holds the mode ALS, the gain 3, or 16 bit and 100 ms before the
  block runs.
\<close>

theorem configure_steps_witness:
  "(\<forall>b dev reg v.
      fst (bus_read register_file (snd (bus_write register_file b dev reg v)) dev reg) = v) \<and>
   decode_mode (fst (main_mode register_file (world0 (\<lambda>reg. 0x02)))) = Known UVS_MODE \<and>
   decode_gain (fst (main_gain register_file (world0 (\<lambda>reg. 0x01)))) = Known GAIN_18 \<and>
   decode_res_rate (fst (main_res_meas_rate register_file (world0 (\<lambda>reg. 0x42)))) =
     (Known RES_18_BIT, Known RATE_100) \<and>
   trace (snd (main_mode register_file (world0 (\<lambda>reg. 0x02)))) =
     [BusRead 0x53 0x00 0x02, Stdout (''mode raw: 0x2'' @ nl), Stdout (''mode: ALS'' @ nl),
      Stdout (''Setting mode to UVS_MODE.'' @ nl), BusWrite 0x53 0x00 0x0A,
      BusRead 0x53 0x00 0x0A, Stdout (''mode: UVS'' @ nl)] \<and>
   trace (snd (main_gain register_file (world0 (\<lambda>reg. 0x01)))) =
     [BusRead 0x53 0x05 0x01, Stdout (''gain raw: 1'' @ nl), Stdout (''gain: 3'' @ nl),
      Stdout (''Setting gain to 18.'' @ nl), BusWrite 0x53 0x05 0x04,
      BusRead 0x53 0x05 0x04, Stdout (''gain: 18'' @ nl)] \<and>
   trace (snd (main_res_meas_rate register_file (world0 (\<lambda>reg. 0x42)))) =
     [BusRead 0x53 0x04 0x42, Stdout (''resolution: 16 Bit'' @ nl),
      Stdout (''measurement rate: 100ms'' @ nl),
      Stdout (''Setting resolution to 18 bit and rate to 100ms.'' @ nl),
      BusWrite 0x53 0x04 0x22, BusRead 0x53 0x04 0x22,
      Stdout (''resolution: 18 Bit'' @ nl), Stdout (''measurement rate: 100ms'' @ nl)] \<and>
   bus (snd (main_mode register_file (world0 (\<lambda>reg. 0x02)))) = (\<lambda>reg. 0x02)(0x00 := 0x0A)"
proof -
  have stores: "\<forall>b dev reg v.
      fst (bus_read register_file (snd (bus_write register_file b dev reg v)) dev reg) = v"
    by (simp add: register_file_def)
  have dm:
    "decode_mode (fst (main_mode register_file (world0 (\<lambda>reg. 0x02)))) = Known UVS_MODE"
    by (rule configure_steps [where t = register_file and s = "world0 (\<lambda>reg. 0x02)",
        THEN conjunct2, THEN conjunct2, THEN conjunct2, THEN conjunct2, THEN conjunct2, THEN conjunct2, THEN conjunct2, THEN mp, OF stores, THEN conjunct2, THEN conjunct1])
  have dg:
    "decode_gain (fst (main_gain register_file (world0 (\<lambda>reg. 0x01)))) = Known GAIN_18"
    by (rule configure_steps [where t = register_file and s = "world0 (\<lambda>reg. 0x01)",
        THEN conjunct2, THEN conjunct2, THEN conjunct2, THEN conjunct2, THEN conjunct2, THEN conjunct2, THEN conjunct2, THEN mp, OF stores, THEN conjunct2, THEN conjunct2, THEN conjunct2, THEN conjunct2, THEN conjunct1])
  have dr:
    "decode_res_rate (fst (main_res_meas_rate register_file (world0 (\<lambda>reg. 0x42)))) =
       (Known RES_18_BIT, Known RATE_100)"
    by (rule configure_steps [where t = register_file and s = "world0 (\<lambda>reg. 0x42)",
        THEN conjunct2, THEN conjunct2, THEN conjunct2, THEN conjunct2, THEN conjunct2, THEN conjunct2, THEN conjunct2, THEN mp, OF stores, THEN conjunct2, THEN conjunct2, THEN conjunct2, THEN conjunct2, THEN conjunct2, THEN conjunct2, THEN conjunct2, THEN conjunct1])
  have traces:
    "trace (snd (main_mode register_file (world0 (\<lambda>reg. 0x02)))) =
     [BusRead 0x53 0x00 0x02, Stdout (''mode raw: 0x2'' @ nl), Stdout (''mode: ALS'' @ nl),
      Stdout (''Setting mode to UVS_MODE.'' @ nl), BusWrite 0x53 0x00 0x0A,
      BusRead 0x53 0x00 0x0A, Stdout (''mode: UVS'' @ nl)]"
    "trace (snd (main_gain register_file (world0 (\<lambda>reg. 0x01)))) =
     [BusRead 0x53 0x05 0x01, Stdout (''gain raw: 1'' @ nl), Stdout (''gain: 3'' @ nl),
      Stdout (''Setting gain to 18.'' @ nl), BusWrite 0x53 0x05 0x04,
      BusRead 0x53 0x05 0x04, Stdout (''gain: 18'' @ nl)]"
    "trace (snd (main_res_meas_rate register_file (world0 (\<lambda>reg. 0x42)))) =
     [BusRead 0x53 0x04 0x42, Stdout (''resolution: 16 Bit'' @ nl),
      Stdout (''measurement rate: 100ms'' @ nl),
      Stdout (''Setting resolution to 18 bit and rate to 100ms.'' @ nl),
      BusWrite 0x53 0x04 0x22, BusRead 0x53 0x04 0x22,
      Stdout (''resolution: 18 Bit'' @ nl), Stdout (''measurement rate: 100ms'' @ nl)]"
    "bus (snd (main_mode register_file (world0 (\<lambda>reg. 0x02)))) =
       (\<lambda>reg. 0x02)(0x00 := 0x0A)"
    by (simp_all add: main_mode_def main_gain_def main_res_meas_rate_def Let_def split_def
        op_defs reg_defs register_file_def world0_def print_mode_def print_gain_def
        print_res_meas_rate_def print_resolution_def print_measurement_rate_def
        dec.simps hex.simps digit_char_def)
  show ?thesis
    by (intro conjI stores dm dg dr traces)
qed

lemmas sleep_defs = msleep_def nanosleep_def ns_of_def timespec_of_def EINTR_def EINVAL_def

section \<open>Claims about \<^verbatim>\<open>msleep\<close>\<close>

text \<open>
  Claim C7. For \<open>0 \<le> msec\<close>, \<^verbatim>\<open>msleep\<close> never returns \<^verbatim>\<open>false\<close>, and when it
  returns the process has been suspended for exactly the requested number of
  milliseconds, counted over all \<^verbatim>\<open>nanosleep\<close> calls of the loop: a call that a signal
  interrupts counts with the time it slept, it is followed by another call, and that call
  sleeps the remaining time. It returns, with \<^verbatim>\<open>true\<close>, as soon as one of the calls
  is not interrupted.
\<close>

theorem msleep_full_duration:
  "(msleep fuel sig msec s = Some (True, s') \<longrightarrow>
      slept s' = slept s + nat msec * 1000000) \<and>
   (0 \<le> msec \<and> msleep fuel sig msec s = Some (ok, s') \<longrightarrow>
      ok \<and> slept s' = slept s + nat msec * 1000000 \<and>
      (\<forall>e. sig (ncalls s) = Some e \<and> e < nat msec * 1000000 \<longrightarrow>
         ncalls s + 2 \<le> ncalls s')) \<and>
   (0 \<le> msec \<and> (\<exists>j<fuel. sig (ncalls s + j) = None) \<longrightarrow>
      (\<exists>s''. msleep fuel sig msec s = Some (True, s'') \<and>
         slept s'' = slept s + nat msec * 1000000))"
proof -
  have success: "slept s' = slept s + nat msec * 1000000"
    if a: "msleep fuel sig msec s = Some (True, s')"
  proof -
    from a have "0 \<le> msec"
      by (auto simp: msleep_def Let_def split: if_splits)
    from msleep_slept [OF this a] show ?thesis by simp
  qed
  have returned: "ok \<and> slept s' = slept s + nat msec * 1000000 \<and>
      (\<forall>e. sig (ncalls s) = Some e \<and> e < nat msec * 1000000 \<longrightarrow>
         ncalls s + 2 \<le> ncalls s')"
    if "0 \<le> msec" and "msleep fuel sig msec s = Some (ok, s')"
    using msleep_slept [OF that] msleep_resumed [OF that] by blast
  have returns: "\<exists>s''. msleep fuel sig msec s = Some (True, s'') \<and>
         slept s'' = slept s + nat msec * 1000000"
    if nonneg: "0 \<le> msec" and quiet: "\<exists>j<fuel. sig (ncalls s + j) = None"
  proof -
    from msleep_total [OF quiet, of msec] obtain ok s''
      where r: "msleep fuel sig msec s = Some (ok, s'')"
      by auto
    from msleep_slept [OF nonneg r] r show ?thesis
      by auto
  qed
  from success returned returns show ?thesis
    by blast
qed

text \<open>
  Three signals, each one microsecond into a \<^verbatim>\<open>nanosleep\<close> call: the fourth call
  completes the 100 ms.
\<close>

theorem msleep_full_duration_witness:
  "(0 :: int) \<le> 100 \<and>
   (\<exists>j<5. (\<lambda>k. if k < 3 then Some (1000 :: nat) else None) (ncalls (world0 ()) + j) = None) \<and>
   (\<exists>s''. msleep 5 (\<lambda>k. if k < 3 then Some 1000 else None) 100 (world0 ()) =
            Some (True, s'') \<and>
          slept s'' = slept (world0 ()) + nat 100 * 1000000) \<and>
   msleep 5 (\<lambda>k. if k < 3 then Some 1000 else None) 100 (world0 ()) =
     Some (True, \<lparr>bus = (), trace = [Msleep 100], errno = EINTR, slept = 100000000,
                  ncalls = 4\<rparr>)"
proof -
  have nonneg: "(0 :: int) \<le> 100" by simp
  have quiet: "\<exists>j<5. (\<lambda>k. if k < 3 then Some (1000 :: nat) else None)
      (ncalls (world0 ()) + j) = None"
    by (rule exI [of _ 3]) (simp add: world0_def)
  have run: "msleep 5 (\<lambda>k. if k < 3 then Some 1000 else None) 100 (world0 ()) =
     Some (True, \<lparr>bus = (), trace = [Msleep 100], errno = EINTR, slept = 100000000,
                  ncalls = 4\<rparr>)"
    by (simp add: sleep_defs nanosleep_loop_unfold world0_def)
  from msleep_full_duration
    [of 5 "\<lambda>k. if k < 3 then Some 1000 else None" 100 "world0 ()"] nonneg quiet
  have "\<exists>s''. msleep 5 (\<lambda>k. if k < 3 then Some 1000 else None) 100 (world0 ()) =
            Some (True, s'') \<and>
          slept s'' = slept (world0 ()) + nat 100 * 1000000"
    by blast
  with nonneg quiet run show ?thesis
    by blast
qed

text \<open>
  Claim C10. For a negative argument \<^verbatim>\<open>msleep\<close> returns \<^verbatim>\<open>false\<close> with
  \<open>errno = EINVAL\<close>, and it has not called \<^verbatim>\<open>nanosleep\<close>: the number of calls and
  the time slept are unchanged. It does so even with no fuel for the loop.
\<close>

theorem msleep_negative:
  assumes "msec < 0"
  shows "\<exists>s'. msleep fuel sig msec s = Some (False, s') \<and> errno s' = EINVAL \<and>
           ncalls s' = ncalls s \<and> slept s' = slept s \<and> bus s' = bus s"
  using assms by (simp add: msleep_def Let_def)

theorem msleep_negative_witness:
  "(- 5 :: int) < 0 \<and>
   (\<exists>s'. msleep 0 (\<lambda>k. None) (- 5) (world0 ()) = Some (False, s') \<and> errno s' = EINVAL \<and>
      ncalls s' = ncalls (world0 ()) \<and> slept s' = slept (world0 ()) \<and>
      bus s' = bus (world0 ()))"
proof -
  have neg: "(- 5 :: int) < 0" by simp
  from msleep_negative [OF neg] neg show ?thesis
    by blast
qed

end
